theory Spec2Isabelle
  imports Complex_Main "HOL-Library.Char_ord" "HOL-Library.List_Lexorder" "HOL-Library.Word"
begin

section \<open>The artist recommender of Scripts/artist\_recommender.py\<close>

text \<open>
  The script has one function, \<open>get_recommendations(df)\<close>, with two nested helpers,
  \<open>clean_key\<close> and \<open>get_unique_genres\<close>. It takes a pandas table of library
  artists and returns a table of the artists that are named as similar to library
  artists and are not in the library themselves, ranked by a score.

  Conventions of the embedding.
  \<^item> A Python \<open>str\<close> is a \<open>string\<close>; every \<open>char\<close> is read as one code point
    below 256 (the Latin-1 block of Unicode), and the character classes and the
    lower-casing below are those of Python on that block.
  \<^item> A table cell is a \<open>pyval\<close>: a null (\<open>None\<close> or NaN, which pandas treats
    alike), a \<open>str\<close>, a Python \<open>int\<close> (unbounded) or a finite \<open>float\<close>.
  \<^item> A column has a dtype: \<open>object\<close> (any cells), \<open>int64\<close> (64-bit words, read as
    signed) or \<open>float64\<close> (numbers and NaN). The dtype decides whether pandas lets
    the \<open>.str\<close> accessor through, and which arithmetic the play counts get.
  \<^item> The play counts after line 24 are numbers of one dtype, \<open>int64\<close>, \<open>uint64\<close> or
    \<open>float64\<close>. A value is kept as the real number it denotes. The sum of line 56 and
    the \<open>+ 1\<close> of line 62 wrap around on the two integer dtypes, as numpy does. On
    \<open>float64\<close> arithmetic is that of the real numbers: rounding and overflow to
    infinity are left out, and the only values that are not finite are the results of
    \<open>np.log10\<close> at zero and below zero, which \<open>npfloat\<close> keeps apart.
  \<^item> An exception is a value of \<open>error\<close>; the assignment to the caller's table is
    made explicit by returning the table together with the result.
  \<^item> How pandas reads a \<open>str\<close> as a number (\<open>pd.to_numeric\<close>) is a parameter
    \<open>str_to_num\<close> of the functions that need it: an integer, a float, or \<open>None\<close>
    where the text is no number.
\<close>

subsection \<open>Characters and strings\<close>

definition isspace :: "char \<Rightarrow> bool" where
  \<comment> \<open>\<open>str.isspace\<close> and the class \<open>\s\<close> of \<open>re\<close> on a \<open>str\<close> pattern\<close>
  "isspace c =
     (let n = (of_char c :: nat)
      in (9 \<le> n \<and> n \<le> 13) \<or> (28 \<le> n \<and> n \<le> 32) \<or> n = 133 \<or> n = 160)"

definition isalpha :: "char \<Rightarrow> bool" where
  \<comment> \<open>the letters: A-Z, a-z, and the letters of the upper half of Latin-1\<close>
  "isalpha c =
     (let n = (of_char c :: nat)
      in (65 \<le> n \<and> n \<le> 90) \<or> (97 \<le> n \<and> n \<le> 122) \<or> n = 170 \<or> n = 181 \<or> n = 186
         \<or> (192 \<le> n \<and> n \<le> 214) \<or> (216 \<le> n \<and> n \<le> 246) \<or> (248 \<le> n \<and> n \<le> 255))"

definition isnumeric :: "char \<Rightarrow> bool" where
  \<comment> \<open>the digits 0-9, the superscripts 1, 2, 3 and the fractions 1/4, 1/2, 3/4\<close>
  "isnumeric c =
     (let n = (of_char c :: nat)
      in (48 \<le> n \<and> n \<le> 57) \<or> n = 178 \<or> n = 179 \<or> n = 185 \<or> (188 \<le> n \<and> n \<le> 190))"

definition is_word :: "char \<Rightarrow> bool" where
  \<comment> \<open>the class \<open>\w\<close> of \<open>re\<close>: alphanumeric, or the underscore\<close>
  "is_word c = (isalpha c \<or> isnumeric c \<or> c = CHR ''_'')"

definition lower_char :: "char \<Rightarrow> char" where
  "lower_char c =
     (let n = (of_char c :: nat)
      in if (65 \<le> n \<and> n \<le> 90) \<or> (192 \<le> n \<and> n \<le> 222 \<and> n \<noteq> 215)
         then char_of (n + 32) else c)"

definition lower :: "string \<Rightarrow> string" where
  \<comment> \<open>\<open>str.lower\<close>\<close>
  "lower s = map lower_char s"

definition strip :: "string \<Rightarrow> string" where
  \<comment> \<open>\<open>str.strip()\<close>: drop the whitespace at both ends\<close>
  "strip s = rev (dropWhile isspace (rev (dropWhile isspace s)))"

fun re_sub_non_word_space :: "string \<Rightarrow> string" where
  \<comment> \<open>\<open>re.sub(r'[^\w\s]', '', s)\<close>: scan left to right, delete each match of the class\<close>
  "re_sub_non_word_space [] = []"
| "re_sub_non_word_space (c # cs) =
     (if \<not> (is_word c \<or> isspace c) then re_sub_non_word_space cs
      else c # re_sub_non_word_space cs)"

fun re_split_aux :: "string \<Rightarrow> bool \<Rightarrow> string \<Rightarrow> string list" where
  \<comment> \<open>the piece read so far (reversed); whether a match of \<open>,\s*\<close> is still going on\<close>
  "re_split_aux cur sep [] = [rev cur]"
| "re_split_aux cur sep (c # cs) =
     (if c = CHR '','' then rev cur # re_split_aux [] True cs
      else if sep \<and> isspace c then re_split_aux cur True cs
      else re_split_aux (c # cur) False cs)"

definition re_split_comma :: "string \<Rightarrow> string list" where
  \<comment> \<open>\<open>re.split(r',\s*', s)\<close>\<close>
  "re_split_comma s = re_split_aux [] False s"

fun split_aux :: "string \<Rightarrow> string \<Rightarrow> string list" where
  "split_aux cur [] = [rev cur]"
| "split_aux cur (c # cs) =
     (if c = CHR '','' then rev cur # split_aux [] cs else split_aux (c # cur) cs)"

definition split_comma :: "string \<Rightarrow> string list" where
  \<comment> \<open>\<open>s.split(',')\<close>\<close>
  "split_comma s = split_aux [] s"

fun join :: "string \<Rightarrow> string list \<Rightarrow> string" where
  \<comment> \<open>\<open>sep.join(xs)\<close>\<close>
  "join sep [] = []"
| "join sep [x] = x"
| "join sep (x # y # ys) = x @ sep @ join sep (y # ys)"

fun unique :: "'a list \<Rightarrow> 'a list" where
  \<comment> \<open>\<open>Series.unique()\<close>: the distinct values in order of first appearance\<close>
  "unique [] = []"
| "unique (x # xs) = x # unique (filter (\<lambda>y. y \<noteq> x) xs)"

subsection \<open>Cells, columns and tables\<close>

datatype pyval = PNone | PStr string | PInt int | PFloat real

definition notna :: "pyval \<Rightarrow> bool" where
  "notna v = (v \<noteq> PNone)"

definition is_str :: "pyval \<Rightarrow> bool" where
  \<comment> \<open>\<open>isinstance(v, str)\<close>\<close>
  "is_str v = (case v of PStr s \<Rightarrow> True | _ \<Rightarrow> False)"

datatype column =
  ObjectCol "pyval list" | Int64Col "64 word list" | Float64Col "real option list"

fun col_values :: "column \<Rightarrow> pyval list" where
  "col_values (ObjectCol vs) = vs"
| "col_values (Int64Col ws) = map (\<lambda>w. PInt (sint w)) ws"
| "col_values (Float64Col xs) =
     map (\<lambda>x. case x of None \<Rightarrow> PNone | Some r \<Rightarrow> PFloat r) xs"

fun is_object :: "column \<Rightarrow> bool" where
  "is_object (ObjectCol vs) = True"
| "is_object (Int64Col ws) = False"
| "is_object (Float64Col xs) = False"

type_synonym dataframe = "(string \<times> column) list"

definition columns :: "dataframe \<Rightarrow> string list" where
  "columns df = map fst df"

definition nrows :: "dataframe \<Rightarrow> nat" where
  \<comment> \<open>all columns of a table have the same length\<close>
  "nrows df = (case df of [] \<Rightarrow> 0 | (n, c) # rest \<Rightarrow> length (col_values c))"

datatype error = KeyError "string list" | AttributeError | TypeError

subsection \<open>The key normalizer\<close>

definition clean_key :: "pyval \<Rightarrow> string" where
  "clean_key text =
     (if \<not> is_str text then ''''
      else case text of PStr s \<Rightarrow> strip (re_sub_non_word_space (lower s)) | _ \<Rightarrow> '''')"

text \<open>
  The normalizer as the specification words it: lower-case, keep the letters, digits,
  underscores and whitespace, trim. The trimmed text is the part from the first to the
  last character that is not whitespace.
\<close>

definition spec_keep :: "char \<Rightarrow> bool" where
  "spec_keep c = (isalpha c \<or> isnumeric c \<or> c = CHR ''_'' \<or> isspace c)"

definition spec_trim :: "string \<Rightarrow> string" where
  "spec_trim s =
     (let t = dropWhile isspace s
      in take (length t - length (takeWhile isspace (rev t))) t)"

definition spec_normalize :: "pyval \<Rightarrow> string" where
  "spec_normalize v =
     (case v of PStr s \<Rightarrow> spec_trim (filter spec_keep (map lower_char s)) | _ \<Rightarrow> '''')"

subsection \<open>The library index: lines 16 to 30\<close>

record 'p artist_row =
  Artist :: pyval
  Similar_Artists :: pyval
  Total_Plays :: 'p
  Artist_Genres :: pyval

definition ensure_genres :: "dataframe \<Rightarrow> dataframe" where
  \<comment> \<open>lines 17 and 18: \<open>df['Artist_Genres'] = ""\<close> assigns to the caller's table\<close>
  "ensure_genres df =
     (if ''Artist_Genres'' \<notin> set (columns df)
      then df @ [(''Artist_Genres'', ObjectCol (replicate (nrows df) (PStr '''')))]
      else df)"

definition required :: "string list" where
  "required = [''Artist'', ''Similar_Artists'', ''Total_Plays'', ''Artist_Genres'']"

definition mk_rows ::
  "pyval list \<Rightarrow> pyval list \<Rightarrow> pyval list \<Rightarrow> pyval list \<Rightarrow> pyval artist_row list" where
  "mk_rows as ss ts gs =
     map (\<lambda>(a, s, t, g). \<lparr>Artist = a, Similar_Artists = s, Total_Plays = t, Artist_Genres = g\<rparr>)
       (zip as (zip ss (zip ts gs)))"

definition select_required :: "dataframe \<Rightarrow> error + pyval artist_row list" where
  \<comment> \<open>\<open>df[['Artist', 'Similar_Artists', 'Total_Plays', 'Artist_Genres']]\<close>: pandas raises
      KeyError with the labels that are not columns\<close>
  "select_required df =
     (case (map_of df ''Artist'', map_of df ''Similar_Artists'',
            map_of df ''Total_Plays'', map_of df ''Artist_Genres'') of
        (Some a, Some s, Some t, Some g) \<Rightarrow>
          Inr (mk_rows (col_values a) (col_values s) (col_values t) (col_values g))
      | _ \<Rightarrow> Inl (KeyError (filter (\<lambda>n. n \<notin> set (columns df)) required)))"

fun drop_duplicates_Artist :: "'p artist_row list \<Rightarrow> 'p artist_row list" where
  \<comment> \<open>\<open>drop_duplicates('Artist')\<close>: the first row of each value of Artist, nulls alike\<close>
  "drop_duplicates_Artist [] = []"
| "drop_duplicates_Artist (r # rs) =
     r # drop_duplicates_Artist (filter (\<lambda>x. Artist x \<noteq> Artist r) rs)"

datatype pynum = PyInt int | PyFloat real

definition num_value :: "pynum \<Rightarrow> real" where
  "num_value x = (case x of PyInt n \<Rightarrow> of_int n | PyFloat r \<Rightarrow> r)"

definition to_numeric :: "(string \<Rightarrow> pynum option) \<Rightarrow> pyval \<Rightarrow> pynum option" where
  \<comment> \<open>\<open>pd.to_numeric(..., errors='coerce')\<close> on one cell; \<open>None\<close> is NaN\<close>
  "to_numeric str_to_num v =
     (case v of
        PInt n \<Rightarrow> Some (PyInt n)
      | PFloat r \<Rightarrow> Some (PyFloat r)
      | PStr s \<Rightarrow> str_to_num s
      | PNone \<Rightarrow> None)"

definition coerce_plays :: "(string \<Rightarrow> pynum option) \<Rightarrow> pyval \<Rightarrow> real" where
  \<comment> \<open>line 24: \<open>pd.to_numeric(..., errors='coerce').fillna(0)\<close>\<close>
  "coerce_plays str_to_num v =
     (case to_numeric str_to_num v of None \<Rightarrow> 0 | Some x \<Rightarrow> num_value x)"

datatype dtype = Int64 | UInt64 | Float64

definition int64_min :: int where
  \<comment> \<open>\<open>-2^63\<close>\<close>
  "int64_min = - 9223372036854775808"

definition int64_max :: int where
  \<comment> \<open>\<open>2^63 - 1\<close>\<close>
  "int64_max = 9223372036854775807"

definition uint64_max :: int where
  \<comment> \<open>\<open>2^64 - 1\<close>\<close>
  "uint64_max = 18446744073709551615"

definition is_float_cell :: "pynum option \<Rightarrow> bool" where
  \<comment> \<open>a cell that makes \<open>pd.to_numeric\<close> return floats: a null, a float, an integer
      outside both 64-bit ranges\<close>
  "is_float_cell c =
     (case c of
        None \<Rightarrow> True
      | Some (PyFloat r) \<Rightarrow> True
      | Some (PyInt n) \<Rightarrow> n < int64_min \<or> uint64_max < n)"

definition is_uint_cell :: "pynum option \<Rightarrow> bool" where
  \<comment> \<open>an integer above the \<open>int64\<close> range\<close>
  "is_uint_cell c = (case c of Some (PyInt n) \<Rightarrow> int64_max < n | _ \<Rightarrow> False)"

definition is_negative_cell :: "pynum option \<Rightarrow> bool" where
  "is_negative_cell c = (case c of Some (PyInt n) \<Rightarrow> n < 0 | _ \<Rightarrow> False)"

definition inferred_dtype :: "pynum option list \<Rightarrow> dtype" where
  \<comment> \<open>the dtype \<open>pd.to_numeric\<close> gives a column of dtype object\<close>
  "inferred_dtype cells =
     (if list_ex is_float_cell cells then Float64
      else if list_ex is_uint_cell cells
      then (if list_ex is_negative_cell cells then Float64 else UInt64)
      else Int64)"

definition fillna_str :: "pyval \<Rightarrow> pyval" where
  \<comment> \<open>line 25: \<open>.fillna("")\<close>\<close>
  "fillna_str v = (if notna v then v else PStr '''')"

definition clean_row :: "(string \<Rightarrow> pynum option) \<Rightarrow> pyval artist_row \<Rightarrow> real artist_row" where
  "clean_row str_to_num r =
     \<lparr>Artist = Artist r, Similar_Artists = Similar_Artists r,
      Total_Plays = coerce_plays str_to_num (Total_Plays r),
      Artist_Genres = fillna_str (Artist_Genres r)\<rparr>"

definition artist_df ::
  "(string \<Rightarrow> pynum option) \<Rightarrow> dataframe \<Rightarrow> error + real artist_row list" where
  \<comment> \<open>lines 21 to 27, on the table that line 18 has left\<close>
  "artist_df str_to_num df =
     (case select_required df of
        Inl e \<Rightarrow> Inl e
      | Inr rows \<Rightarrow>
          Inr (filter (\<lambda>r. notna (Artist r))
                 (map (clean_row str_to_num) (drop_duplicates_Artist rows))))"

definition plays_dtype :: "(string \<Rightarrow> pynum option) \<Rightarrow> dataframe \<Rightarrow> dtype" where
  \<comment> \<open>the dtype of Total\_Plays after line 24: that of a numeric column, and for a
      column of dtype object the one inferred from the rows that line 21 has kept\<close>
  "plays_dtype str_to_num df =
     (case map_of df ''Total_Plays'' of
        Some (Int64Col ws) \<Rightarrow> Int64
      | Some (Float64Col xs) \<Rightarrow> Float64
      | Some (ObjectCol vs) \<Rightarrow>
          (case select_required df of
             Inl e \<Rightarrow> Float64
           | Inr rows \<Rightarrow>
               inferred_dtype
                 (map (\<lambda>r. to_numeric str_to_num (Total_Plays r))
                    (drop_duplicates_Artist rows)))
      | None \<Rightarrow> Float64)"

definition library_clean :: "'p artist_row list \<Rightarrow> string set" where
  \<comment> \<open>line 30\<close>
  "library_clean adf = set (unique (map (\<lambda>r. clean_key (Artist r)) adf))"

subsection \<open>The candidates: lines 33 to 40\<close>

record 'p rec_row = "'p artist_row" +
  suggested_key :: string

definition str_accessor_ok :: "bool \<Rightarrow> pyval list \<Rightarrow> bool" where
  \<comment> \<open>\<open>Series.str\<close> raises AttributeError unless the column has dtype object and the
      values that are not null are not all numbers (pandas infers "empty", "string" or
      "mixed" then)\<close>
  "str_accessor_ok obj vs =
     (obj \<and> (let nn = filter notna vs in nn = [] \<or> list_ex is_str nn))"

definition str_split :: "pyval \<Rightarrow> string list option" where
  \<comment> \<open>\<open>.str.split(r',\s*')\<close> on one cell: NaN where the cell is no \<open>str\<close>\<close>
  "str_split v = (case v of PStr s \<Rightarrow> Some (re_split_comma s) | _ \<Rightarrow> None)"

definition explode_row :: "'p artist_row \<Rightarrow> 'p artist_row list" where
  \<comment> \<open>\<open>explode\<close>: one row for each piece; one row with NaN for NaN and for an empty list\<close>
  "explode_row r =
     (case str_split (Similar_Artists r) of
        None \<Rightarrow> [r\<lparr>Similar_Artists := PNone\<rparr>]
      | Some [] \<Rightarrow> [r\<lparr>Similar_Artists := PNone\<rparr>]
      | Some ps \<Rightarrow> map (\<lambda>p. r\<lparr>Similar_Artists := PStr p\<rparr>) ps)"

definition explode :: "'p artist_row list \<Rightarrow> 'p artist_row list" where
  "explode adf = concat (map explode_row adf)"

definition nonempty_entry :: "'p artist_row \<Rightarrow> bool" where
  \<comment> \<open>line 34: \<open>notna() & (... != "")\<close>\<close>
  "nonempty_entry r = (notna (Similar_Artists r) \<and> Similar_Artists r \<noteq> PStr '''')"

definition with_key :: "'p artist_row \<Rightarrow> 'p rec_row" where
  \<comment> \<open>line 37\<close>
  "with_key r =
     \<lparr>Artist = Artist r, Similar_Artists = Similar_Artists r, Total_Plays = Total_Plays r,
      Artist_Genres = Artist_Genres r, suggested_key = clean_key (Similar_Artists r)\<rparr>"

definition candidates :: "'p artist_row list \<Rightarrow> 'p rec_row list" where
  \<comment> \<open>lines 33 to 37, once the \<open>.str\<close> accessor is through\<close>
  "candidates adf = map with_key (filter nonempty_entry (explode adf))"

definition recs_of :: "bool \<Rightarrow> 'p artist_row list \<Rightarrow> error + 'p rec_row list" where
  \<comment> \<open>lines 33 to 40; \<open>obj\<close>: the column Similar\_Artists has dtype object\<close>
  "recs_of obj adf =
     (if \<not> str_accessor_ok obj (map Similar_Artists adf) then Inl AttributeError
      else Inr (filter (\<lambda>r. suggested_key r \<notin> library_clean adf) (candidates adf)))"

subsection \<open>Aggregation and score: lines 43 to 63\<close>

definition str_of :: "pyval \<Rightarrow> string" where
  "str_of v = (case v of PStr s \<Rightarrow> s | _ \<Rightarrow> '''')"

definition genre_tags :: "pyval \<Rightarrow> string list" where
  \<comment> \<open>lines 46 to 48: the tags one cell adds to the set\<close>
  "genre_tags g_str =
     (if is_str g_str \<and> strip (str_of g_str) \<noteq> ''''
      then map strip (filter (\<lambda>g. strip g \<noteq> '''') (split_comma (str_of g_str)))
      else [])"

definition get_unique_genres :: "pyval list \<Rightarrow> string" where
  \<comment> \<open>the set is kept as the list of its members in order of first insertion; \<open>sorted\<close>
      is stable, and the order of the tags that are equal up to case is that of the set,
      which Python does not fix\<close>
  "get_unique_genres genre_series =
     join '', '' (sort_key lower (unique (concat (map genre_tags genre_series))))"

definition join_artists :: "pyval list \<Rightarrow> error + string" where
  \<comment> \<open>line 54: \<open>", ".join(x.unique())\<close>; \<open>join\<close> raises TypeError on an item that is no
      \<open>str\<close>\<close>
  "join_artists x =
     (if list_all is_str (unique x) then Inr (join '', '' (map str_of (unique x)))
      else Inl TypeError)"

datatype npfloat = Fin real | NegInf | NaN

record agg_row =
  Missing_Artist :: string
  Related_Library_Artists :: string
  Recommendation_Count :: nat
  Related_Library_Artists_Total_Play_Count :: real
  Related_Artist_Genres :: string

record recommendation = agg_row +
  Priority_Score :: npfloat


definition group_keys :: "'p rec_row list \<Rightarrow> string list" where
  \<comment> \<open>\<open>groupby('Similar_Artists')\<close>: the distinct keys, sorted; null keys are left out\<close>
  "group_keys recs =
     sort (unique (map str_of (filter is_str (map Similar_Artists recs))))"

definition group_of :: "string \<Rightarrow> 'p rec_row list \<Rightarrow> 'p rec_row list" where
  "group_of k recs = filter (\<lambda>r. Similar_Artists r = PStr k) recs"

definition wrap_int64 :: "int \<Rightarrow> int" where
  \<comment> \<open>the \<open>int64\<close> that an integer result wraps around to\<close>
  "wrap_int64 n = (n - int64_min) mod (uint64_max + 1) + int64_min"

definition wrap_uint64 :: "int \<Rightarrow> int" where
  "wrap_uint64 n = n mod (uint64_max + 1)"

definition np_wrap :: "dtype \<Rightarrow> real \<Rightarrow> real" where
  \<comment> \<open>the value of a result in the arithmetic of the dtype\<close>
  "np_wrap d x =
     (case d of
        Int64 \<Rightarrow> of_int (wrap_int64 \<lfloor>x\<rfloor>)
      | UInt64 \<Rightarrow> of_int (wrap_uint64 \<lfloor>x\<rfloor>)
      | Float64 \<Rightarrow> x)"

definition np_sum :: "dtype \<Rightarrow> real list \<Rightarrow> real" where
  \<comment> \<open>the \<open>sum\<close> of a group\<close>
  "np_sum d xs = np_wrap d (sum_list xs)"

definition np_add1 :: "dtype \<Rightarrow> real \<Rightarrow> real" where
  \<comment> \<open>\<open>+ 1\<close> on a column of the dtype\<close>
  "np_add1 d x = np_wrap d (x + 1)"

fun agg :: "dtype \<Rightarrow> real rec_row list \<Rightarrow> string list \<Rightarrow> error + agg_row list" where
  \<comment> \<open>lines 53 to 58, one output row for each key; the dtype is that of Total\_Plays\<close>
  "agg d recs [] = Inr []"
| "agg d recs (k # ks) =
     (case join_artists (map Artist (group_of k recs)) of
        Inl e \<Rightarrow> Inl e
      | Inr names \<Rightarrow>
          (case agg d recs ks of
             Inl e \<Rightarrow> Inl e
           | Inr rest \<Rightarrow>
               Inr (\<lparr>Missing_Artist = k,
                     Related_Library_Artists = names,
                     Recommendation_Count = length (filter notna (map Artist (group_of k recs))),
                     Related_Library_Artists_Total_Play_Count =
                       np_sum d (map Total_Plays (group_of k recs)),
                     Related_Artist_Genres =
                       get_unique_genres (map Artist_Genres (group_of k recs))\<rparr> # rest)))"

definition np_log10 :: "real \<Rightarrow> npfloat" where
  \<comment> \<open>\<open>np.log10\<close>: minus infinity at 0, NaN below 0\<close>
  "np_log10 x = (if 0 < x then Fin (log 10 x) else if x = 0 then NegInf else NaN)"

definition np_times :: "nat \<Rightarrow> npfloat \<Rightarrow> npfloat" where
  \<comment> \<open>the product of a count and a float\<close>
  "np_times n y =
     (case y of
        Fin x \<Rightarrow> Fin (real n * x)
      | NegInf \<Rightarrow> (if n = 0 then NaN else NegInf)
      | NaN \<Rightarrow> NaN)"

definition add_score :: "dtype \<Rightarrow> agg_row \<Rightarrow> recommendation" where
  \<comment> \<open>lines 61 to 63; the dtype is that of the totals\<close>
  "add_score d r =
     \<lparr>Missing_Artist = Missing_Artist r,
      Related_Library_Artists = Related_Library_Artists r,
      Recommendation_Count = Recommendation_Count r,
      Related_Library_Artists_Total_Play_Count = Related_Library_Artists_Total_Play_Count r,
      Related_Artist_Genres = Related_Artist_Genres r,
      Priority_Score =
        np_times (Recommendation_Count r)
          (np_log10 (np_add1 d (Related_Library_Artists_Total_Play_Count r)))\<rparr>"

subsection \<open>The ranking: line 78\<close>

fun np_greater :: "npfloat \<Rightarrow> npfloat \<Rightarrow> bool" where
  \<comment> \<open>\<open>>\<close> on floats: false whenever a side is NaN\<close>
  "np_greater (Fin x) (Fin y) = (y < x)"
| "np_greater (Fin x) NegInf = True"
| "np_greater a b = False"

fun np_ge :: "npfloat \<Rightarrow> npfloat \<Rightarrow> bool" where
  \<comment> \<open>\<open>>=\<close> on floats\<close>
  "np_ge (Fin x) (Fin y) = (y \<le> x)"
| "np_ge (Fin x) NegInf = True"
| "np_ge NegInf NegInf = True"
| "np_ge a b = False"

fun goes_before :: "npfloat \<Rightarrow> npfloat \<Rightarrow> bool" where
  \<comment> \<open>\<open>sort_values(ascending=False)\<close>: the greater value first, and NaN last\<close>
  "goes_before NaN b = False"
| "goes_before a NaN = True"
| "goes_before a b = np_greater a b"

fun insert_desc :: "recommendation \<Rightarrow> recommendation list \<Rightarrow> recommendation list" where
  "insert_desc r [] = [r]"
| "insert_desc r (x # xs) =
     (if goes_before (Priority_Score x) (Priority_Score r) then x # insert_desc r xs
      else r # x # xs)"

definition sort_values_desc :: "recommendation list \<Rightarrow> recommendation list" where
  \<comment> \<open>rows of equal score stay in the order of the groups; the sort of pandas does not
      fix their order\<close>
  "sort_values_desc rows = foldr insert_desc rows []"

subsection \<open>The whole function\<close>

definition similar_is_object :: "dataframe \<Rightarrow> bool" where
  "similar_is_object df =
     (case map_of df ''Similar_Artists'' of Some c \<Rightarrow> is_object c | None \<Rightarrow> False)"

definition aggregated ::
  "(string \<Rightarrow> pynum option) \<Rightarrow> dataframe \<Rightarrow> error + agg_row list" where
  \<comment> \<open>lines 21 to 58\<close>
  "aggregated str_to_num df =
     (case artist_df str_to_num df of
        Inl e \<Rightarrow> Inl e
      | Inr adf \<Rightarrow>
          (case recs_of (similar_is_object df) adf of
             Inl e \<Rightarrow> Inl e
           | Inr recs \<Rightarrow> agg (plays_dtype str_to_num df) recs (group_keys recs)))"

definition recommendations ::
  "(string \<Rightarrow> pynum option) \<Rightarrow> dataframe \<Rightarrow> error + recommendation list" where
  \<comment> \<open>lines 21 to 78\<close>
  "recommendations str_to_num df =
     (case aggregated str_to_num df of
        Inl e \<Rightarrow> Inl e
      | Inr rows \<Rightarrow>
          Inr (sort_values_desc (map (add_score (plays_dtype str_to_num df)) rows)))"

definition get_recommendations ::
  "(string \<Rightarrow> pynum option) \<Rightarrow> dataframe \<Rightarrow> dataframe \<times> (error + recommendation list)"
  where
  \<comment> \<open>the table as the call leaves it, and the value returned or the exception raised\<close>
  "get_recommendations str_to_num df =
     (let df' = ensure_genres df in (df', recommendations str_to_num df'))"

subsection \<open>Example data\<close>

text \<open>
  A reader of unsigned decimal numerals stands for the parameter \<open>str_to_num\<close> in the
  examples.
\<close>

fun digits_value :: "int \<Rightarrow> string \<Rightarrow> int option" where
  "digits_value acc [] = Some acc"
| "digits_value acc (c # cs) =
     (if CHR ''0'' \<le> c \<and> c \<le> CHR ''9''
      then digits_value (10 * acc + (of_char c - 48)) cs else None)"

definition digits_to_num :: "string \<Rightarrow> pynum option" where
  "digits_to_num s = (if s = [] then None else map_option PyInt (digits_value 0 s))"

definition library_example :: dataframe where
  "library_example =
     [(''Artist'',
         ObjectCol [PStr ''Radiohead'', PStr ''Portishead'', PStr ''Massive Attack'',
                    PStr ''Radiohead'', PNone]),
      (''Similar_Artists'',
         ObjectCol [PStr ''Thom Yorke, Portishead, Muse'',
                    PStr ''Massive Attack, Tricky, Goldfrapp'',
                    PStr ''Tricky, portishead!'', PStr ''Blur'', PStr ''Pulp'']),
      (''Total_Plays'',
         ObjectCol [PStr ''9'', PStr ''abc'', PInt 9, PStr ''7'', PNone]),
      (''Artist_Genres'',
         ObjectCol [PStr ''rock'', PNone, PStr ''trip hop, electronic'', PStr ''pop'',
                    PStr ''pop''])]"

definition example_artists :: "real artist_row list" where
  "example_artists =
     [\<lparr>Artist = PStr ''Radiohead'', Similar_Artists = PStr ''Thom Yorke, Portishead, Muse'',
        Total_Plays = 9, Artist_Genres = PStr ''rock''\<rparr>,
      \<lparr>Artist = PStr ''Portishead'',
        Similar_Artists = PStr ''Massive Attack, Tricky, Goldfrapp'',
        Total_Plays = 0, Artist_Genres = PStr ''''\<rparr>,
      \<lparr>Artist = PStr ''Massive Attack'', Similar_Artists = PStr ''Tricky, portishead!'',
        Total_Plays = 9, Artist_Genres = PStr ''trip hop, electronic''\<rparr>]"

definition muse :: recommendation where
  "muse =
     \<lparr>Missing_Artist = ''Muse'', Related_Library_Artists = ''Radiohead'',
      Recommendation_Count = 1, Related_Library_Artists_Total_Play_Count = 9,
      Related_Artist_Genres = ''rock'', Priority_Score = Fin 1\<rparr>"

definition thom_yorke :: recommendation where
  "thom_yorke =
     \<lparr>Missing_Artist = ''Thom Yorke'', Related_Library_Artists = ''Radiohead'',
      Recommendation_Count = 1, Related_Library_Artists_Total_Play_Count = 9,
      Related_Artist_Genres = ''rock'', Priority_Score = Fin 1\<rparr>"

definition goldfrapp :: recommendation where
  "goldfrapp =
     \<lparr>Missing_Artist = ''Goldfrapp'', Related_Library_Artists = ''Portishead'',
      Recommendation_Count = 1, Related_Library_Artists_Total_Play_Count = 0,
      Related_Artist_Genres = '''', Priority_Score = Fin 0\<rparr>"

definition tricky :: recommendation where
  "tricky =
     \<lparr>Missing_Artist = ''Tricky'', Related_Library_Artists = ''Portishead, Massive Attack'',
      Recommendation_Count = 2, Related_Library_Artists_Total_Play_Count = 9,
      Related_Artist_Genres = ''electronic, trip hop'', Priority_Score = Fin 2\<rparr>"

definition in_order :: "recommendation \<Rightarrow> recommendation \<Rightarrow> bool" where
  \<comment> \<open>the second row may follow the first in the ranking\<close>
  "in_order a b = (\<not> goes_before (Priority_Score b) (Priority_Score a))"

definition negative_plays_example :: dataframe where
  "negative_plays_example =
     [(''Artist'', ObjectCol [PStr ''Air'', PStr ''Beck'', PStr ''Can'']),
      (''Similar_Artists'', ObjectCol [PStr ''Xiu Xiu'', PStr ''Xiu Xiu'', PStr ''Yes'']),
      (''Total_Plays'', Float64Col [Some (- (1 / 4)), Some (- (1 / 4)), Some (- (1 / 2))])]"

definition example_rows :: "pyval artist_row list" where
  "example_rows =
     [\<lparr>Artist = PStr ''Radiohead'', Similar_Artists = PStr ''Thom Yorke, Portishead, Muse'',
        Total_Plays = PStr ''9'', Artist_Genres = PStr ''rock''\<rparr>,
      \<lparr>Artist = PStr ''Portishead'',
        Similar_Artists = PStr ''Massive Attack, Tricky, Goldfrapp'',
        Total_Plays = PStr ''abc'', Artist_Genres = PNone\<rparr>,
      \<lparr>Artist = PStr ''Massive Attack'', Similar_Artists = PStr ''Tricky, portishead!'',
        Total_Plays = PInt 9, Artist_Genres = PStr ''trip hop, electronic''\<rparr>,
      \<lparr>Artist = PStr ''Radiohead'', Similar_Artists = PStr ''Blur'',
        Total_Plays = PStr ''7'', Artist_Genres = PStr ''pop''\<rparr>,
      \<lparr>Artist = PNone, Similar_Artists = PStr ''Pulp'',
        Total_Plays = PNone, Artist_Genres = PStr ''pop''\<rparr>]"

definition negative_count_example :: dataframe where
  "negative_count_example =
     [(''Artist'', ObjectCol [PStr ''Radiohead'']),
      (''Similar_Artists'', ObjectCol [PStr ''Muse'']),
      (''Total_Plays'', Float64Col [Some (- 5)]),
      (''Artist_Genres'', ObjectCol [PStr ''rock''])]"

definition no_genres_example :: dataframe where
  "no_genres_example =
     [(''Artist'', ObjectCol [PStr ''Radiohead'', PStr ''Portishead'']),
      (''Similar_Artists'', ObjectCol [PStr ''Thom Yorke, Portishead'', PStr '''']),
      (''Total_Plays'', ObjectCol [PStr ''100'', PStr ''50''])]"

definition whitespace_example :: dataframe where
  "whitespace_example =
     [(''Artist'', ObjectCol [PStr ''Radiohead'']),
      (''Similar_Artists'', ObjectCol [PStr '' ,Thom Yorke ,Muse'']),
      (''Total_Plays'', ObjectCol [PStr ''9'']),
      (''Artist_Genres'', ObjectCol [PStr ''rock''])]"

definition no_similar_example :: dataframe where
  \<comment> \<open>no artist has similar artists: the column is all NaN, of dtype float64\<close>
  "no_similar_example =
     [(''Artist'', ObjectCol [PStr ''Radiohead'', PStr ''Portishead'']),
      (''Similar_Artists'', Float64Col [None, None]),
      (''Total_Plays'', ObjectCol [PStr ''100'', PStr ''50'']),
      (''Artist_Genres'', ObjectCol [PStr ''rock'', PStr ''trip hop''])]"

definition numeric_artist_example :: dataframe where
  \<comment> \<open>an artist name that is a number, not a \<open>str\<close>\<close>
  "numeric_artist_example =
     [(''Artist'', ObjectCol [PInt 311, PStr ''Sublime'']),
      (''Similar_Artists'', ObjectCol [PStr ''Incubus'', PStr ''Slightly Stoopid'']),
      (''Total_Plays'', ObjectCol [PStr ''100'', PStr ''50'']),
      (''Artist_Genres'', ObjectCol [PStr ''rock'', PStr ''ska''])]"

definition repeated_entry_example :: dataframe where
  "repeated_entry_example =
     [(''Artist'', ObjectCol [PStr ''Radiohead'']),
      (''Similar_Artists'', ObjectCol [PStr ''Muse, Muse'']),
      (''Total_Plays'', ObjectCol [PStr ''9'']),
      (''Artist_Genres'', ObjectCol [PStr ''rock''])]"

definition example_recs :: "real rec_row list" where
  "example_recs =
     [\<lparr>Artist = PStr ''Radiohead'', Similar_Artists = PStr ''Thom Yorke'', Total_Plays = 9,
        Artist_Genres = PStr ''rock'', suggested_key = ''thom yorke''\<rparr>,
      \<lparr>Artist = PStr ''Radiohead'', Similar_Artists = PStr ''Muse'', Total_Plays = 9,
        Artist_Genres = PStr ''rock'', suggested_key = ''muse''\<rparr>,
      \<lparr>Artist = PStr ''Portishead'', Similar_Artists = PStr ''Tricky'', Total_Plays = 0,
        Artist_Genres = PStr '''', suggested_key = ''tricky''\<rparr>,
      \<lparr>Artist = PStr ''Portishead'', Similar_Artists = PStr ''Goldfrapp'', Total_Plays = 0,
        Artist_Genres = PStr '''', suggested_key = ''goldfrapp''\<rparr>,
      \<lparr>Artist = PStr ''Massive Attack'', Similar_Artists = PStr ''Tricky'', Total_Plays = 9,
        Artist_Genres = PStr ''trip hop, electronic'', suggested_key = ''tricky''\<rparr>]"

definition max_plays_example :: dataframe where
  \<comment> \<open>a play count at the top of \<open>int64\<close>\<close>
  "max_plays_example =
     [(''Artist'', ObjectCol [PStr ''radiohead'']),
      (''Similar_Artists'', ObjectCol [PStr ''muse'']),
      (''Total_Plays'', ObjectCol [PStr ''9223372036854775807'']),
      (''Artist_Genres'', ObjectCol [PStr ''rock''])]"

definition integer_plays_example :: dataframe where
  \<comment> \<open>play counts of dtype \<open>int64\<close>\<close>
  "integer_plays_example =
     [(''Artist'', ObjectCol [PStr ''Radiohead'', PStr ''Portishead'']),
      (''Similar_Artists'', ObjectCol [PStr ''Muse, Tricky'', PStr ''Tricky'']),
      (''Total_Plays'', Int64Col [9, 90]),
      (''Artist_Genres'', ObjectCol [PStr ''rock'', PStr ''trip hop''])]"

definition wrapping_sum_example :: dataframe where
  \<comment> \<open>two play counts whose sum is above \<open>int64\<close>\<close>
  "wrapping_sum_example =
     [(''Artist'', ObjectCol [PStr ''radiohead'', PStr ''portishead'']),
      (''Similar_Artists'', ObjectCol [PStr ''tricky'', PStr ''tricky'']),
      (''Total_Plays'',
         ObjectCol [PStr ''4611686018427387904'', PStr ''4611686018427387904'']),
      (''Artist_Genres'', ObjectCol [PStr ''rock'', PStr ''trip hop''])]"

definition fits :: "dtype \<Rightarrow> real \<Rightarrow> bool" where
  \<comment> \<open>the number is a value of the dtype: for the integer dtypes, an integer in range\<close>
  "fits d x =
     (case d of
        Int64 \<Rightarrow> of_int \<lfloor>x\<rfloor> = x \<and> of_int int64_min \<le> x \<and> x \<le> of_int int64_max
      | UInt64 \<Rightarrow> of_int \<lfloor>x\<rfloor> = x \<and> 0 \<le> x \<and> x \<le> of_int uint64_max
      | Float64 \<Rightarrow> True)"

section \<open>Properties\<close>

text \<open>The equations that evaluate the model on a concrete table.\<close>

lemmas eval_defs = get_recommendations_def recommendations_def aggregated_def
  ensure_genres_def columns_def nrows_def artist_df_def select_required_def mk_rows_def
  required_def clean_row_def coerce_plays_def to_numeric_def num_value_def fillna_str_def
  notna_def is_str_def similar_is_object_def recs_of_def str_accessor_ok_def candidates_def
  explode_def explode_row_def str_split_def re_split_comma_def nonempty_entry_def
  with_key_def library_clean_def clean_key_def strip_def lower_def lower_char_def
  isspace_def is_word_def isalpha_def isnumeric_def group_keys_def group_of_def str_of_def
  join_artists_def get_unique_genres_def genre_tags_def split_comma_def plays_dtype_def
  inferred_dtype_def is_float_cell_def is_uint_cell_def is_negative_cell_def int64_min_def
  int64_max_def uint64_max_def np_sum_def np_add1_def np_wrap_def wrap_int64_def
  wrap_uint64_def

subsection \<open>The normalizer\<close>

lemma re_sub_is_filter: "re_sub_non_word_space s = filter spec_keep s"
  by (induction s) (auto simp: spec_keep_def is_word_def)

lemma strip_is_spec_trim: "strip s = spec_trim s"
proof -
  define t where "t = dropWhile isspace s"
  have "rev t = takeWhile isspace (rev t) @ dropWhile isspace (rev t)"
    by simp
  then have "t = rev (dropWhile isspace (rev t)) @ rev (takeWhile isspace (rev t))"
    by (metis rev_append rev_rev_ident)
  then have "take (length t - length (takeWhile isspace (rev t))) t
      = rev (dropWhile isspace (rev t))"
    by (metis append_eq_conv_conj length_append length_rev add_diff_cancel_right')
  then show ?thesis
    by (simp add: strip_def spec_trim_def t_def Let_def)
qed

text \<open>
  C2. \<open>clean_key\<close> is a total function into strings. On a value that is no \<open>str\<close> it
  returns the empty string. On a \<open>str\<close> it returns the text lower-cased, with only the
  letters, digits, underscores and whitespace kept, and trimmed of the whitespace at its
  two ends: it is the normalizer of the specification.
\<close>

theorem clean_key_meets_spec:
  "(\<not> is_str v \<longrightarrow> clean_key v = '''') \<and>
   (\<forall>s. v = PStr s \<longrightarrow>
      clean_key v = spec_trim (filter spec_keep (map lower_char s))) \<and>
   clean_key v = spec_normalize v"
  by (cases v) (simp_all add: clean_key_def spec_normalize_def is_str_def lower_def
      re_sub_is_filter strip_is_spec_trim)

theorem clean_key_meets_spec_witness:
  "\<not> is_str (PInt 311) \<and> clean_key (PInt 311) = '''' \<and>
   clean_key (PStr '' AC/DC!  '')
     = spec_trim (filter spec_keep (map lower_char '' AC/DC!  '')) \<and>
   clean_key (PStr '' AC/DC!  '') = ''acdc''"
proof -
  have "\<not> is_str (PInt 311)"
    by (simp add: is_str_def)
  moreover have "clean_key (PStr '' AC/DC!  '') = ''acdc''"
    by code_simp
  ultimately show ?thesis
    using clean_key_meets_spec [of "PInt 311"] clean_key_meets_spec [of "PStr '' AC/DC!  ''"]
    by blast
qed

subsection \<open>Facts about the stages\<close>

lemma set_unique: "set (unique xs) = set xs"
  by (induction xs rule: unique.induct) auto

lemma distinct_unique: "distinct (unique xs)"
  by (induction xs rule: unique.induct) (auto simp: set_unique)

lemma set_insert_desc: "set (insert_desc r xs) = insert r (set xs)"
  by (induction xs) auto

lemma set_sort_values_desc: "set (sort_values_desc rows) = set rows"
  unfolding sort_values_desc_def by (induction rows) (auto simp: set_insert_desc)

lemma get_recommendations_snd:
  "snd (get_recommendations str_to_num df) = recommendations str_to_num (ensure_genres df)"
  by (simp add: get_recommendations_def Let_def)

lemma recommendations_InrD:
  assumes "recommendations str_to_num df = Inr out"
  obtains adf recs rows where
    "artist_df str_to_num df = Inr adf"
    "recs_of (similar_is_object df) adf = Inr recs"
    "agg (plays_dtype str_to_num df) recs (group_keys recs) = Inr rows"
    "out = sort_values_desc (map (add_score (plays_dtype str_to_num df)) rows)"
  using assms unfolding recommendations_def aggregated_def
  by (auto split: sum.splits)

lemma agg_rows:
  assumes "agg d recs ks = Inr rows" and "row \<in> set rows"
  shows "Missing_Artist row \<in> set ks \<and>
         Recommendation_Count row
           = length (filter notna (map Artist (group_of (Missing_Artist row) recs))) \<and>
         Related_Library_Artists_Total_Play_Count row
           = np_sum d (map Total_Plays (group_of (Missing_Artist row) recs))"
  using assms
proof (induction ks arbitrary: rows)
  case Nil
  then show ?case by simp
next
  case (Cons k ks)
  then show ?case
    by (auto split: sum.splits)
qed

lemma group_keys_mem:
  "k \<in> set (group_keys recs) \<longleftrightarrow> (\<exists>c \<in> set recs. Similar_Artists c = PStr k)"
proof
  assume "k \<in> set (group_keys recs)"
  then obtain c where c: "c \<in> set recs" "is_str (Similar_Artists c)"
      "k = str_of (Similar_Artists c)"
    by (auto simp: group_keys_def set_unique)
  then show "\<exists>c \<in> set recs. Similar_Artists c = PStr k"
    by (cases "Similar_Artists c") (auto simp: is_str_def str_of_def)
next
  assume "\<exists>c \<in> set recs. Similar_Artists c = PStr k"
  then obtain c where c: "c \<in> set recs" "Similar_Artists c = PStr k"
    by blast
  then have "is_str (Similar_Artists c)" "str_of (Similar_Artists c) = k"
    by (simp_all add: is_str_def str_of_def)
  with c(1) show "k \<in> set (group_keys recs)"
    by (force simp: group_keys_def set_unique)
qed

lemma candidates_key:
  "c \<in> set (candidates adf) \<Longrightarrow> suggested_key c = clean_key (Similar_Artists c)"
  by (auto simp: candidates_def with_key_def)

lemma recs_of_mem:
  assumes "recs_of obj adf = Inr recs" and "c \<in> set recs"
  shows "c \<in> set (candidates adf) \<and> clean_key (Similar_Artists c) \<notin> library_clean adf"
  using assms candidates_key [of c adf]
  by (auto simp: recs_of_def split: if_splits)

lemma library_clean_mem:
  "k \<in> library_clean adf \<longleftrightarrow> (\<exists>a \<in> set adf. clean_key (Artist a) = k)"
  by (auto simp: library_clean_def set_unique)

subsection \<open>The example, stage by stage\<close>

lemma example_ensure: "ensure_genres library_example = library_example"
  by code_simp

lemma example_artist_df: "artist_df digits_to_num library_example = Inr example_artists"
  by code_simp

lemma example_aggregated:
  "aggregated digits_to_num library_example =
     Inr [\<lparr>Missing_Artist = ''Goldfrapp'', Related_Library_Artists = ''Portishead'',
            Recommendation_Count = 1, Related_Library_Artists_Total_Play_Count = 0,
            Related_Artist_Genres = ''''\<rparr>,
          \<lparr>Missing_Artist = ''Muse'', Related_Library_Artists = ''Radiohead'',
            Recommendation_Count = 1, Related_Library_Artists_Total_Play_Count = 9,
            Related_Artist_Genres = ''rock''\<rparr>,
          \<lparr>Missing_Artist = ''Thom Yorke'', Related_Library_Artists = ''Radiohead'',
            Recommendation_Count = 1, Related_Library_Artists_Total_Play_Count = 9,
            Related_Artist_Genres = ''rock''\<rparr>,
          \<lparr>Missing_Artist = ''Tricky'', Related_Library_Artists = ''Portishead, Massive Attack'',
            Recommendation_Count = 2, Related_Library_Artists_Total_Play_Count = 9,
            Related_Artist_Genres = ''electronic, trip hop''\<rparr>]"
  by code_simp

lemma example_dtype: "plays_dtype digits_to_num library_example = Float64"
  by code_simp

lemma example_output:
  "snd (get_recommendations digits_to_num library_example)
     = Inr [tricky, muse, thom_yorke, goldfrapp]"
  by (simp add: get_recommendations_snd example_ensure recommendations_def example_aggregated
      example_dtype add_score_def np_add1_def np_wrap_def np_log10_def np_times_def
      sort_values_desc_def
      tricky_def muse_def thom_yorke_def goldfrapp_def)

lemma example_keys:
  "library_clean example_artists = {''radiohead'', ''portishead'', ''massive attack''}"
proof -
  have "unique (map (\<lambda>r. clean_key (Artist r)) example_artists)
      = [''radiohead'', ''portishead'', ''massive attack'']"
    by code_simp
  then show ?thesis
    by (simp add: library_clean_def)
qed

subsection \<open>The fuzzy filter\<close>

text \<open>
  C1. Whenever the call returns a table, the normalized name of every Missing\_Artist in
  it is outside the set of normalized names of the library (the set of line 30, built
  from the artists that line 27 retains): no recommended artist has the normalized name
  of a retained library artist.
\<close>

theorem missing_artist_not_in_library:
  assumes "artist_df str_to_num (ensure_genres df) = Inr adf"
    and "snd (get_recommendations str_to_num df) = Inr out"
    and "r \<in> set out"
  shows "clean_key (PStr (Missing_Artist r)) \<notin> library_clean adf \<and>
         (\<forall>a \<in> set adf. clean_key (PStr (Missing_Artist r)) \<noteq> clean_key (Artist a))"
proof -
  from assms(2) have "recommendations str_to_num (ensure_genres df) = Inr out"
    by (simp add: get_recommendations_snd)
  then obtain adf' recs rows where
    a: "artist_df str_to_num (ensure_genres df) = Inr adf'"
    and b: "recs_of (similar_is_object (ensure_genres df)) adf' = Inr recs"
    and c: "agg (plays_dtype str_to_num (ensure_genres df)) recs (group_keys recs) = Inr rows"
    and d: "out = sort_values_desc
              (map (add_score (plays_dtype str_to_num (ensure_genres df))) rows)"
    by (rule recommendations_InrD)
  from a assms(1) have adf: "adf' = adf" by simp
  from assms(3) d obtain row where row: "row \<in> set rows"
    "r = add_score (plays_dtype str_to_num (ensure_genres df)) row"
    by (auto simp: set_sort_values_desc)
  from agg_rows [OF c row(1)] have "Missing_Artist row \<in> set (group_keys recs)"
    by simp
  then obtain cand where cand: "cand \<in> set recs" "Similar_Artists cand = PStr (Missing_Artist row)"
    by (auto simp: group_keys_mem)
  from recs_of_mem [OF b cand(1)] cand(2) adf
  have "clean_key (PStr (Missing_Artist row)) \<notin> library_clean adf"
    by simp
  with row(2) have "clean_key (PStr (Missing_Artist r)) \<notin> library_clean adf"
    by (simp add: add_score_def)
  then show ?thesis
    by (auto simp: library_clean_mem)
qed

theorem missing_artist_not_in_library_witness:
  "artist_df digits_to_num (ensure_genres library_example) = Inr example_artists \<and>
   snd (get_recommendations digits_to_num library_example)
     = Inr [tricky, muse, thom_yorke, goldfrapp] \<and>
   tricky \<in> set [tricky, muse, thom_yorke, goldfrapp] \<and>
   clean_key (PStr ''Tricky'') \<notin> {''radiohead'', ''portishead'', ''massive attack''} \<and>
   list_all (\<lambda>a. clean_key (PStr ''Tricky'') \<noteq> clean_key (Artist a)) example_artists"
proof -
  have h1: "artist_df digits_to_num (ensure_genres library_example) = Inr example_artists"
    by (simp add: example_ensure example_artist_df)
  have h3: "tricky \<in> set [tricky, muse, thom_yorke, goldfrapp]"
    by simp
  have "Missing_Artist tricky = ''Tricky''"
    by (simp add: tricky_def)
  with missing_artist_not_in_library [OF h1 example_output h3] h1 example_output
  show ?thesis
    by (simp add: example_keys list_all_iff)
qed


subsection \<open>The score\<close>

lemma output_row:
  assumes "snd (get_recommendations str_to_num df) = Inr out" and "r \<in> set out"
  obtains adf recs rows row where
    "artist_df str_to_num (ensure_genres df) = Inr adf"
    "recs_of (similar_is_object (ensure_genres df)) adf = Inr recs"
    "agg (plays_dtype str_to_num (ensure_genres df)) recs (group_keys recs) = Inr rows"
    "row \<in> set rows"
    "r = add_score (plays_dtype str_to_num (ensure_genres df)) row"
proof -
  from assms(1) have "recommendations str_to_num (ensure_genres df) = Inr out"
    by (simp add: get_recommendations_snd)
  then obtain adf recs rows where
    a: "artist_df str_to_num (ensure_genres df) = Inr adf"
      "recs_of (similar_is_object (ensure_genres df)) adf = Inr recs"
      "agg (plays_dtype str_to_num (ensure_genres df)) recs (group_keys recs) = Inr rows"
    and b: "out = sort_values_desc
              (map (add_score (plays_dtype str_to_num (ensure_genres df))) rows)"
    by (rule recommendations_InrD)
  from assms(2) b obtain row where "row \<in> set rows"
      "r = add_score (plays_dtype str_to_num (ensure_genres df)) row"
    by (auto simp: set_sort_values_desc)
  with a show ?thesis
    by (rule that)
qed

lemma add_score_fields:
  "Recommendation_Count (add_score d r) = Recommendation_Count r"
  "Related_Library_Artists_Total_Play_Count (add_score d r)
     = Related_Library_Artists_Total_Play_Count r"
  "Missing_Artist (add_score d r) = Missing_Artist r"
  "Priority_Score (add_score d r)
     = np_times (Recommendation_Count r)
         (np_log10 (np_add1 d (Related_Library_Artists_Total_Play_Count r)))"
  by (simp_all add: add_score_def)

lemma wrap_int64_id: "int64_min \<le> k \<Longrightarrow> k \<le> int64_max \<Longrightarrow> wrap_int64 k = k"
  by (simp add: wrap_int64_def int64_min_def int64_max_def uint64_max_def)

lemma wrap_uint64_id: "0 \<le> k \<Longrightarrow> k \<le> uint64_max \<Longrightarrow> wrap_uint64 k = k"
  by (simp add: wrap_uint64_def uint64_max_def)

lemma np_wrap_fits:
  assumes "fits d x"
  shows "np_wrap d x = x"
proof (cases d)
  case Int64
  with assms have x: "of_int \<lfloor>x\<rfloor> = x" and "of_int int64_min \<le> x" "x \<le> of_int int64_max"
    by (simp_all add: fits_def)
  then have "int64_min \<le> \<lfloor>x\<rfloor>" "\<lfloor>x\<rfloor> \<le> int64_max"
    by (simp_all add: le_floor_iff floor_le_iff)
  then have "wrap_int64 \<lfloor>x\<rfloor> = \<lfloor>x\<rfloor>"
    by (rule wrap_int64_id)
  with Int64 x show ?thesis
    by (simp add: np_wrap_def)
next
  case UInt64
  with assms have x: "of_int \<lfloor>x\<rfloor> = x" and "0 \<le> x" "x \<le> of_int uint64_max"
    by (simp_all add: fits_def)
  then have "0 \<le> \<lfloor>x\<rfloor>" "\<lfloor>x\<rfloor> \<le> uint64_max"
    by (simp_all add: floor_le_iff)
  then have "wrap_uint64 \<lfloor>x\<rfloor> = \<lfloor>x\<rfloor>"
    by (rule wrap_uint64_id)
  with UInt64 x show ?thesis
    by (simp add: np_wrap_def)
next
  case Float64
  then show ?thesis
    by (simp add: np_wrap_def)
qed

lemma fits_one: "fits d 1"
  by (cases d) (simp_all add: fits_def int64_min_def int64_max_def uint64_max_def)

lemma max_dtype: "plays_dtype digits_to_num (ensure_genres max_plays_example) = Int64"
  by code_simp

lemma max_digits: "digits_to_num ''9223372036854775807'' = Some (PyInt 9223372036854775807)"
  by code_simp

lemma max_aggregated:
  "aggregated digits_to_num (ensure_genres max_plays_example) =
     Inr [\<lparr>Missing_Artist = ''muse'', Related_Library_Artists = ''radiohead'',
            Recommendation_Count = 1,
            Related_Library_Artists_Total_Play_Count = 9223372036854775807,
            Related_Artist_Genres = ''rock''\<rparr>]"
  by (simp add: eval_defs max_plays_example_def max_digits)

text \<open>
  C3 fails as stated. One library artist with the play count \<open>9223372036854775807\<close>,
  the greatest \<open>int64\<close>, names one artist. The column of totals has dtype \<open>int64\<close>, the
  \<open>+ 1\<close> of line 62 wraps around to \<open>-9223372036854775808\<close>, and the score is NaN, not
  the count times the logarithm of the total plus one.
\<close>

theorem score_formula_overflow_counterexample:
  "snd (get_recommendations digits_to_num max_plays_example) =
     Inr [\<lparr>Missing_Artist = ''muse'', Related_Library_Artists = ''radiohead'',
            Recommendation_Count = 1,
            Related_Library_Artists_Total_Play_Count = 9223372036854775807,
            Related_Artist_Genres = ''rock'', Priority_Score = NaN\<rparr>] \<and>
   np_times 1 (np_log10 (9223372036854775807 + 1)) = Fin (log 10 9223372036854775808)"
  by (simp add: get_recommendations_snd recommendations_def max_aggregated max_dtype
      add_score_def np_add1_def np_wrap_def wrap_int64_def int64_min_def uint64_max_def
      np_log10_def np_times_def sort_values_desc_def)

text \<open>
  C3, amended. Every row of the returned table carries, as its Priority\_Score, the
  product of its Recommendation\_Count and \<open>np.log10\<close> of its total play count plus one,
  the sum taken in the dtype of the totals. Where the total plus one is a value of that
  dtype (it does not overflow the 64-bit integers of an integer column) the score is the
  count times \<open>np.log10\<close> of the total plus one, which for a total above \<open>-1\<close> is the
  count times the logarithm to base 10; and where the total is 0 the score is 0,
  whatever the count.
\<close>

theorem priority_score_formula:
  assumes "snd (get_recommendations str_to_num df) = Inr out" and "r \<in> set out"
  shows "Priority_Score r
           = np_times (Recommendation_Count r)
               (np_log10 (np_add1 (plays_dtype str_to_num (ensure_genres df))
                  (Related_Library_Artists_Total_Play_Count r))) \<and>
         (fits (plays_dtype str_to_num (ensure_genres df))
            (Related_Library_Artists_Total_Play_Count r + 1) \<longrightarrow>
            Priority_Score r
              = np_times (Recommendation_Count r)
                  (np_log10 (Related_Library_Artists_Total_Play_Count r + 1))) \<and>
         (fits (plays_dtype str_to_num (ensure_genres df))
            (Related_Library_Artists_Total_Play_Count r + 1) \<and>
          - 1 < Related_Library_Artists_Total_Play_Count r \<longrightarrow>
            Priority_Score r
              = Fin (real (Recommendation_Count r)
                     * log 10 (Related_Library_Artists_Total_Play_Count r + 1))) \<and>
         (Related_Library_Artists_Total_Play_Count r = 0 \<longrightarrow> Priority_Score r = Fin 0)"
proof -
  define d where "d = plays_dtype str_to_num (ensure_genres df)"
  from assms obtain row where r: "r = add_score d row"
    unfolding d_def by (rule output_row)
  define t where "t = Related_Library_Artists_Total_Play_Count row"
  have fit: "np_add1 d t = t + 1" if "fits d (t + 1)"
    using that by (simp add: np_add1_def np_wrap_fits)
  have zero: "np_add1 d 0 = 1"
    using fits_one [of d] by (simp add: np_add1_def np_wrap_fits)
  show ?thesis
    unfolding d_def [symmetric]
    using fit zero
    by (auto simp: r add_score_fields t_def np_log10_def np_times_def)
qed

theorem priority_score_formula_witness:
  "snd (get_recommendations digits_to_num library_example)
     = Inr [tricky, muse, thom_yorke, goldfrapp] \<and>
   goldfrapp \<in> set [tricky, muse, thom_yorke, goldfrapp] \<and>
   fits (plays_dtype digits_to_num (ensure_genres library_example))
     (Related_Library_Artists_Total_Play_Count goldfrapp + 1) \<and>
   - 1 < Related_Library_Artists_Total_Play_Count goldfrapp \<and>
   Related_Library_Artists_Total_Play_Count goldfrapp = 0 \<and>
   Priority_Score goldfrapp
     = np_times (Recommendation_Count goldfrapp)
         (np_log10 (Related_Library_Artists_Total_Play_Count goldfrapp + 1)) \<and>
   Priority_Score goldfrapp
     = Fin (real (Recommendation_Count goldfrapp)
            * log 10 (Related_Library_Artists_Total_Play_Count goldfrapp + 1)) \<and>
   Priority_Score goldfrapp = Fin 0"
proof -
  have h: "goldfrapp \<in> set [tricky, muse, thom_yorke, goldfrapp]"
    by simp
  have "Related_Library_Artists_Total_Play_Count goldfrapp = 0"
    and "- 1 < Related_Library_Artists_Total_Play_Count goldfrapp"
    by (simp_all add: goldfrapp_def)
  moreover have "fits (plays_dtype digits_to_num (ensure_genres library_example))
     (Related_Library_Artists_Total_Play_Count goldfrapp + 1)"
    by (simp add: example_ensure example_dtype fits_def)
  ultimately show ?thesis
    using priority_score_formula [OF example_output h] example_output h
    by blast
qed


subsection \<open>The ranking\<close>

lemma goes_before_asym: "goes_before a b \<Longrightarrow> \<not> goes_before b a"
  by (cases a; cases b) auto

lemma goes_before_negtrans:
  "\<not> goes_before c b \<Longrightarrow> \<not> goes_before b a \<Longrightarrow> \<not> goes_before c a"
  by (cases a; cases b; cases c) auto

lemma np_greater_goes_before: "np_greater a b \<Longrightarrow> goes_before a b"
  by (cases a; cases b) auto

lemma not_goes_before_ge: "\<not> goes_before b a \<Longrightarrow> a \<noteq> NaN \<Longrightarrow> b \<noteq> NaN \<Longrightarrow> np_ge a b"
  by (cases a; cases b) auto

lemma sorted_insert_desc:
  "sorted_wrt in_order xs \<Longrightarrow> sorted_wrt in_order (insert_desc r xs)"
proof (induction xs)
  case Nil
  then show ?case by simp
next
  case (Cons x xs)
  show ?case
  proof (cases "goes_before (Priority_Score x) (Priority_Score r)")
    case True
    then have "in_order x r"
      by (simp add: in_order_def goes_before_asym)
    with Cons True show ?thesis
      by (auto simp: set_insert_desc)
  next
    case False
    then have xr: "in_order r x"
      by (simp add: in_order_def)
    have "in_order r y" if "y \<in> set xs" for y
    proof -
      from Cons.prems that have "in_order x y" by simp
      then show ?thesis
        using xr unfolding in_order_def by (rule goes_before_negtrans)
    qed
    with Cons.prems xr False show ?thesis
      by auto
  qed
qed

lemma sorted_sort_values_desc: "sorted_wrt in_order (sort_values_desc rows)"
  unfolding sort_values_desc_def by (induction rows) (simp_all add: sorted_insert_desc)

text \<open>
  C9. The rows of the returned table are in descending order of Priority\_Score: no row
  is followed, at any distance, by a row of strictly greater score, and of two rows
  whose scores are numbers the earlier has the greater or equal score.
\<close>

theorem output_descending:
  assumes "snd (get_recommendations str_to_num df) = Inr out"
    and "i < j" and "j < length out"
  shows "\<not> np_greater (Priority_Score (out ! j)) (Priority_Score (out ! i)) \<and>
         (Priority_Score (out ! i) \<noteq> NaN \<and> Priority_Score (out ! j) \<noteq> NaN \<longrightarrow>
            np_ge (Priority_Score (out ! i)) (Priority_Score (out ! j)))"
proof -
  from assms(1) have "recommendations str_to_num (ensure_genres df) = Inr out"
    by (simp add: get_recommendations_snd)
  then obtain rows where "out = sort_values_desc rows"
    by (auto simp: recommendations_def split: sum.splits)
  then have "sorted_wrt in_order out"
    by (simp add: sorted_sort_values_desc)
  with assms(2,3) have "in_order (out ! i) (out ! j)"
    by (simp add: sorted_wrt_iff_nth_less)
  then have nb: "\<not> goes_before (Priority_Score (out ! j)) (Priority_Score (out ! i))"
    by (simp add: in_order_def)
  then show ?thesis
    using np_greater_goes_before not_goes_before_ge by blast
qed

theorem output_descending_witness:
  "snd (get_recommendations digits_to_num library_example)
     = Inr [tricky, muse, thom_yorke, goldfrapp] \<and>
   (0::nat) < 1 \<and> 1 < length [tricky, muse, thom_yorke, goldfrapp] \<and>
   \<not> np_greater (Priority_Score muse) (Priority_Score tricky) \<and>
   Priority_Score tricky \<noteq> NaN \<and> Priority_Score muse \<noteq> NaN \<and>
   np_ge (Priority_Score tricky) (Priority_Score muse)"
proof -
  have h: "(0::nat) < 1" "1 < length [tricky, muse, thom_yorke, goldfrapp]"
    by simp_all
  have "Priority_Score tricky \<noteq> NaN" "Priority_Score muse \<noteq> NaN"
    by (simp_all add: tricky_def muse_def)
  with output_descending [OF example_output h] example_output show ?thesis
    by simp
qed


subsection \<open>Monotonicity of the score\<close>

lemma negative_aggregated:
  "aggregated digits_to_num (ensure_genres negative_plays_example) =
     Inr [\<lparr>Missing_Artist = ''Xiu Xiu'', Related_Library_Artists = ''Air, Beck'',
            Recommendation_Count = 2, Related_Library_Artists_Total_Play_Count = - (1 / 2),
            Related_Artist_Genres = ''''\<rparr>,
          \<lparr>Missing_Artist = ''Yes'', Related_Library_Artists = ''Can'',
            Recommendation_Count = 1, Related_Library_Artists_Total_Play_Count = - (1 / 2),
            Related_Artist_Genres = ''''\<rparr>]"
  by code_simp

lemma negative_dtype:
  "plays_dtype digits_to_num (ensure_genres negative_plays_example) = Float64"
  by code_simp

lemma log_half_negative: "log 10 (1 / 2) < 0"
  by simp

text \<open>
  C10 fails as stated. Three library artists with play counts \<open>-1/4\<close>, \<open>-1/4\<close> and
  \<open>-1/2\<close>: the first two name one artist, the third another. The two groups have the
  same total \<open>-1/2\<close>, and the group with the greater count has the smaller score.
\<close>

theorem score_monotone_counterexample:
  "snd (get_recommendations digits_to_num negative_plays_example) =
     Inr [\<lparr>Missing_Artist = ''Yes'', Related_Library_Artists = ''Can'',
            Recommendation_Count = 1, Related_Library_Artists_Total_Play_Count = - (1 / 2),
            Related_Artist_Genres = '''', Priority_Score = Fin (log 10 (1 / 2))\<rparr>,
          \<lparr>Missing_Artist = ''Xiu Xiu'', Related_Library_Artists = ''Air, Beck'',
            Recommendation_Count = 2, Related_Library_Artists_Total_Play_Count = - (1 / 2),
            Related_Artist_Genres = '''', Priority_Score = Fin (2 * log 10 (1 / 2))\<rparr>] \<and>
   \<not> np_ge (Fin (2 * log 10 (1 / 2))) (Fin (log 10 (1 / 2)))"
  using log_half_negative
  by (simp add: get_recommendations_snd recommendations_def negative_aggregated
      negative_dtype add_score_def np_add1_def np_wrap_def np_log10_def np_times_def
      sort_values_desc_def)

text \<open>
  C10, amended. Take two rows of the returned table whose totals plus one are values of
  the dtype of the totals (they do not overflow the 64-bit integers of an integer
  column). If they have the same total, and it is at least 0, the one with the greater
  Recommendation\_Count has a Priority\_Score at least as large. If they have the same
  count, and the smaller total is above \<open>-1\<close>, the one with the greater total has a
  score at least as large.
\<close>

theorem score_monotone:
  assumes "snd (get_recommendations str_to_num df) = Inr out"
    and "r1 \<in> set out" and "r2 \<in> set out"
  shows "(Related_Library_Artists_Total_Play_Count r1
            = Related_Library_Artists_Total_Play_Count r2 \<and>
          0 \<le> Related_Library_Artists_Total_Play_Count r1 \<and>
          fits (plays_dtype str_to_num (ensure_genres df))
            (Related_Library_Artists_Total_Play_Count r1 + 1) \<and>
          Recommendation_Count r1 \<le> Recommendation_Count r2 \<longrightarrow>
            np_ge (Priority_Score r2) (Priority_Score r1)) \<and>
         (Recommendation_Count r1 = Recommendation_Count r2 \<and>
          - 1 < Related_Library_Artists_Total_Play_Count r1 \<and>
          Related_Library_Artists_Total_Play_Count r1
            \<le> Related_Library_Artists_Total_Play_Count r2 \<and>
          fits (plays_dtype str_to_num (ensure_genres df))
            (Related_Library_Artists_Total_Play_Count r1 + 1) \<and>
          fits (plays_dtype str_to_num (ensure_genres df))
            (Related_Library_Artists_Total_Play_Count r2 + 1) \<longrightarrow>
            np_ge (Priority_Score r2) (Priority_Score r1))"
proof -
  define d where "d = plays_dtype str_to_num (ensure_genres df)"
  from assms(1,2) obtain row1 where r1: "r1 = add_score d row1"
    unfolding d_def by (rule output_row)
  from assms(1,3) obtain row2 where r2: "r2 = add_score d row2"
    unfolding d_def by (rule output_row)
  define n1 n2 t1 t2 where "n1 = Recommendation_Count row1"
    and "n2 = Recommendation_Count row2"
    and "t1 = Related_Library_Artists_Total_Play_Count row1"
    and "t2 = Related_Library_Artists_Total_Play_Count row2"
  have count: "np_ge (np_times n2 (np_log10 (np_add1 d t)))
                 (np_times n1 (np_log10 (np_add1 d t)))"
    if "0 \<le> t" "fits d (t + 1)" "n1 \<le> n2" for t :: real
  proof -
    from that(2) have a: "np_add1 d t = t + 1"
      by (simp add: np_add1_def np_wrap_fits)
    from that(1) have "0 \<le> log 10 (t + 1)"
      by simp
    with that(3) have "real n1 * log 10 (t + 1) \<le> real n2 * log 10 (t + 1)"
      by (simp add: mult_right_mono)
    with that(1) show ?thesis
      by (simp add: a np_log10_def np_times_def)
  qed
  have plays: "np_ge (np_times n (np_log10 (np_add1 d t2)))
                 (np_times n (np_log10 (np_add1 d t1)))"
    if "- 1 < t1" "t1 \<le> t2" "fits d (t1 + 1)" "fits d (t2 + 1)" for n
  proof -
    from that(3,4) have a: "np_add1 d t1 = t1 + 1" "np_add1 d t2 = t2 + 1"
      by (simp_all add: np_add1_def np_wrap_fits)
    from that(1,2) have "log 10 (t1 + 1) \<le> log 10 (t2 + 1)"
      by simp
    then have "real n * log 10 (t1 + 1) \<le> real n * log 10 (t2 + 1)"
      by (simp add: mult_left_mono)
    with that(1,2) show ?thesis
      by (simp add: a np_log10_def np_times_def)
  qed
  show ?thesis
    unfolding d_def [symmetric]
    using count plays
    by (auto simp: r1 r2 add_score_fields n1_def n2_def t1_def t2_def)
qed

theorem score_monotone_witness:
  "snd (get_recommendations digits_to_num library_example)
     = Inr [tricky, muse, thom_yorke, goldfrapp] \<and>
   muse \<in> set [tricky, muse, thom_yorke, goldfrapp] \<and>
   tricky \<in> set [tricky, muse, thom_yorke, goldfrapp] \<and>
   goldfrapp \<in> set [tricky, muse, thom_yorke, goldfrapp] \<and>
   Related_Library_Artists_Total_Play_Count muse
     = Related_Library_Artists_Total_Play_Count tricky \<and>
   0 \<le> Related_Library_Artists_Total_Play_Count muse \<and>
   fits (plays_dtype digits_to_num (ensure_genres library_example))
     (Related_Library_Artists_Total_Play_Count muse + 1) \<and>
   fits (plays_dtype digits_to_num (ensure_genres library_example))
     (Related_Library_Artists_Total_Play_Count goldfrapp + 1) \<and>
   Recommendation_Count muse \<le> Recommendation_Count tricky \<and>
   np_ge (Priority_Score tricky) (Priority_Score muse) \<and>
   Recommendation_Count goldfrapp = Recommendation_Count muse \<and>
   - 1 < Related_Library_Artists_Total_Play_Count goldfrapp \<and>
   Related_Library_Artists_Total_Play_Count goldfrapp
     \<le> Related_Library_Artists_Total_Play_Count muse \<and>
   np_ge (Priority_Score muse) (Priority_Score goldfrapp)"
proof -
  have m: "muse \<in> set [tricky, muse, thom_yorke, goldfrapp]"
    and t: "tricky \<in> set [tricky, muse, thom_yorke, goldfrapp]"
    and g: "goldfrapp \<in> set [tricky, muse, thom_yorke, goldfrapp]"
    by simp_all
  have a: "Related_Library_Artists_Total_Play_Count muse
      = Related_Library_Artists_Total_Play_Count tricky"
    "0 \<le> Related_Library_Artists_Total_Play_Count muse"
    "Recommendation_Count muse \<le> Recommendation_Count tricky"
    by (simp_all add: muse_def tricky_def)
  have b: "Recommendation_Count goldfrapp = Recommendation_Count muse"
    "- 1 < Related_Library_Artists_Total_Play_Count goldfrapp"
    "Related_Library_Artists_Total_Play_Count goldfrapp
      \<le> Related_Library_Artists_Total_Play_Count muse"
    by (simp_all add: muse_def goldfrapp_def)
  have f: "fits (plays_dtype digits_to_num (ensure_genres library_example))
      (Related_Library_Artists_Total_Play_Count muse + 1)"
    "fits (plays_dtype digits_to_num (ensure_genres library_example))
      (Related_Library_Artists_Total_Play_Count goldfrapp + 1)"
    by (simp_all add: example_ensure example_dtype fits_def)
  from score_monotone [OF example_output m t] score_monotone [OF example_output g m]
    example_output m t g a b f
  show ?thesis
    by blast
qed


subsection \<open>The play counts\<close>

lemma set_drop_duplicates_Artist: "set (drop_duplicates_Artist rows) \<subseteq> set rows"
  by (induction rows rule: drop_duplicates_Artist.induct) auto

lemma example_select: "select_required (ensure_genres library_example) = Inr example_rows"
  by code_simp

text \<open>
  C4 fails as stated. A library artist whose Total\_Plays is the number \<open>-5\<close> is
  retained with \<open>total_plays = -5\<close>: \<open>pd.to_numeric\<close> passes a number through and
  \<open>fillna(0)\<close> touches the nulls only.
\<close>

theorem total_plays_negative_counterexample:
  "artist_df digits_to_num (ensure_genres negative_count_example) =
     Inr [\<lparr>Artist = PStr ''Radiohead'', Similar_Artists = PStr ''Muse'',
            Total_Plays = - 5, Artist_Genres = PStr ''rock''\<rparr>] \<and>
   \<not> (0::real) \<le> - 5"
proof -
  have "artist_df digits_to_num (ensure_genres negative_count_example) =
     Inr [\<lparr>Artist = PStr ''Radiohead'', Similar_Artists = PStr ''Muse'',
            Total_Plays = - 5, Artist_Genres = PStr ''rock''\<rparr>]"
    by code_simp
  then show ?thesis
    by simp
qed

text \<open>
  C4, amended. Once the required columns are there, lines 21 to 27 return the artist-level
  table without raising, and the total\_plays of every retained LibraryArtist is a
  number drawn from a raw row of the same artist: 0 where the raw value cannot be read
  as a number (a null, a \<open>str\<close> that is no number), and the number read otherwise. It
  is at least 0 when no raw value reads as a negative number.
\<close>

theorem total_plays_coerced:
  assumes "select_required (ensure_genres df) = Inr rows"
  shows "(\<exists>adf. artist_df str_to_num (ensure_genres df) = Inr adf \<and>
           (\<forall>r \<in> set adf. \<exists>raw \<in> set rows.
              Artist raw = Artist r \<and>
              (to_numeric str_to_num (Total_Plays raw) = None \<longrightarrow> Total_Plays r = 0) \<and>
              (\<forall>x. to_numeric str_to_num (Total_Plays raw) = Some x
                     \<longrightarrow> Total_Plays r = num_value x)) \<and>
           ((\<forall>raw \<in> set rows. \<forall>x.
                to_numeric str_to_num (Total_Plays raw) = Some x \<longrightarrow> 0 \<le> num_value x)
              \<longrightarrow> (\<forall>r \<in> set adf. 0 \<le> Total_Plays r))) \<and>
         to_numeric str_to_num PNone = None \<and>
         (str_to_num s = None \<longrightarrow> to_numeric str_to_num (PStr s) = None)"
proof -
  define adf where
    "adf = filter (\<lambda>r. notna (Artist r))
             (map (clean_row str_to_num) (drop_duplicates_Artist rows))"
  have a: "artist_df str_to_num (ensure_genres df) = Inr adf"
    by (simp add: artist_df_def assms adf_def)
  have b: "\<exists>raw \<in> set rows. r = clean_row str_to_num raw" if "r \<in> set adf" for r
    using that set_drop_duplicates_Artist [of rows] by (auto simp: adf_def)
  have c: "\<exists>raw \<in> set rows.
              Artist raw = Artist r \<and>
              (to_numeric str_to_num (Total_Plays raw) = None \<longrightarrow> Total_Plays r = 0) \<and>
              (\<forall>x. to_numeric str_to_num (Total_Plays raw) = Some x
                     \<longrightarrow> Total_Plays r = num_value x)"
    if "r \<in> set adf" for r
  proof -
    from b [OF that] obtain raw where "raw \<in> set rows" "r = clean_row str_to_num raw"
      by blast
    then show ?thesis
      by (auto simp: clean_row_def coerce_plays_def)
  qed
  have d: "0 \<le> Total_Plays r"
    if "\<forall>raw \<in> set rows. \<forall>x.
          to_numeric str_to_num (Total_Plays raw) = Some x \<longrightarrow> 0 \<le> num_value x"
      and "r \<in> set adf" for r
  proof -
    from b [OF that(2)] obtain raw where "raw \<in> set rows" "r = clean_row str_to_num raw"
      by blast
    with that(1) show ?thesis
      by (auto simp: clean_row_def coerce_plays_def split: option.splits)
  qed
  have e: "to_numeric str_to_num PNone = None"
    "str_to_num s = None \<longrightarrow> to_numeric str_to_num (PStr s) = None"
    by (simp_all add: to_numeric_def)
  from a c d e show ?thesis
    by blast
qed

theorem total_plays_coerced_witness:
  "select_required (ensure_genres library_example) = Inr example_rows \<and>
   map (\<lambda>raw. to_numeric digits_to_num (Total_Plays raw)) example_rows
     = [Some (PyInt 9), None, Some (PyInt 9), Some (PyInt 7), None] \<and>
   artist_df digits_to_num (ensure_genres library_example) = Inr example_artists \<and>
   map Total_Plays example_artists = [9, 0, 9] \<and>
   list_all (\<lambda>r. 0 \<le> Total_Plays r) example_artists \<and>
   digits_to_num ''abc'' = None \<and> to_numeric digits_to_num (PStr ''abc'') = None"
proof -
  have nums: "map (\<lambda>raw. to_numeric digits_to_num (Total_Plays raw)) example_rows
      = [Some (PyInt 9), None, Some (PyInt 9), Some (PyInt 7), None]"
    by code_simp
  have "to_numeric digits_to_num (Total_Plays raw) = Some x \<longrightarrow> 0 \<le> num_value x"
    if "raw \<in> set example_rows" for raw x
  proof -
    from that have "to_numeric digits_to_num (Total_Plays raw)
        \<in> set (map (\<lambda>raw. to_numeric digits_to_num (Total_Plays raw)) example_rows)"
      by simp
    then show ?thesis
      unfolding nums by (auto simp: num_value_def)
  qed
  then have pos: "\<forall>raw \<in> set example_rows. \<forall>x.
      to_numeric digits_to_num (Total_Plays raw) = Some x \<longrightarrow> 0 \<le> num_value x"
    by blast
  have adf: "artist_df digits_to_num (ensure_genres library_example) = Inr example_artists"
    by (simp add: example_ensure example_artist_df)
  have abc: "digits_to_num ''abc'' = None"
    by code_simp
  note inst = total_plays_coerced [OF example_select,
      where str_to_num = digits_to_num and s = "''abc''"]
  from inst adf pos
  have "\<forall>r \<in> set example_artists. 0 \<le> Total_Plays r"
    by auto
  then have "list_all (\<lambda>r. 0 \<le> Total_Plays r) example_artists"
    by (simp add: list_all_iff)
  moreover have "map Total_Plays example_artists = [9, 0, 9]"
    by (simp add: example_artists_def)
  ultimately show ?thesis
    using example_select nums adf abc inst
    by simp
qed

subsection \<open>The caller's table\<close>

text \<open>
  C5 fails as stated. On a table without the column Artist\_Genres the call leaves the
  caller's table with one column more than it had.
\<close>

theorem input_table_mutated_counterexample:
  "fst (get_recommendations digits_to_num no_genres_example)
     = no_genres_example @ [(''Artist_Genres'', ObjectCol [PStr '''', PStr ''''])] \<and>
   fst (get_recommendations digits_to_num no_genres_example) \<noteq> no_genres_example \<and>
   ''Artist_Genres'' \<notin> set (columns no_genres_example)"
proof -
  have "ensure_genres no_genres_example
      = no_genres_example @ [(''Artist_Genres'', ObjectCol [PStr '''', PStr ''''])]"
    by code_simp
  moreover have "''Artist_Genres'' \<notin> set (columns no_genres_example)"
    by code_simp
  ultimately show ?thesis
    by (simp add: get_recommendations_def Let_def)
qed

text \<open>
  C5, amended. When the input has the column Artist\_Genres, the call leaves the input
  table as it was. When it has not, the call adds that column to the input table, with
  the empty string in every row, and changes nothing else: the columns the table had
  are there as before, with their values.
\<close>

theorem input_table_frame:
  "(''Artist_Genres'' \<in> set (columns df) \<longrightarrow> fst (get_recommendations str_to_num df) = df) \<and>
   (''Artist_Genres'' \<notin> set (columns df) \<longrightarrow>
      fst (get_recommendations str_to_num df)
        = df @ [(''Artist_Genres'', ObjectCol (replicate (nrows df) (PStr '''')))]) \<and>
   take (length df) (fst (get_recommendations str_to_num df)) = df \<and>
   (\<forall>c \<in> set (columns df). map_of (fst (get_recommendations str_to_num df)) c = map_of df c)"
proof -
  have "(m ++ map_of df) c = map_of df c" if "c \<in> set (columns df)"
    for c and m :: "string \<rightharpoonup> column"
  proof -
    from that have "c \<in> dom (map_of df)"
      by (simp add: columns_def dom_map_of_conv_image_fst)
    then show ?thesis
      by (auto simp: map_add_def split: option.splits)
  qed
  then show ?thesis
    by (simp add: get_recommendations_def Let_def ensure_genres_def)
qed

theorem input_table_frame_witness:
  "''Artist_Genres'' \<in> set (columns library_example) \<and>
   fst (get_recommendations digits_to_num library_example) = library_example \<and>
   ''Artist_Genres'' \<notin> set (columns no_genres_example) \<and>
   fst (get_recommendations digits_to_num no_genres_example)
     = no_genres_example
       @ [(''Artist_Genres'', ObjectCol (replicate (nrows no_genres_example) (PStr '''')))] \<and>
   ''Artist'' \<in> set (columns no_genres_example) \<and>
   map_of (fst (get_recommendations digits_to_num no_genres_example)) ''Artist''
     = map_of no_genres_example ''Artist''"
proof -
  have a: "''Artist_Genres'' \<in> set (columns library_example)"
    by code_simp
  have b: "''Artist_Genres'' \<notin> set (columns no_genres_example)"
    by code_simp
  have c: "''Artist'' \<in> set (columns no_genres_example)"
    by code_simp
  from input_table_frame [of library_example digits_to_num]
    input_table_frame [of no_genres_example digits_to_num] a b c
  show ?thesis
    by blast
qed


subsection \<open>Whitespace in the similar-artist entries\<close>

lemma whitespace_aggregated:
  "aggregated digits_to_num (ensure_genres whitespace_example) =
     Inr [\<lparr>Missing_Artist = '' '', Related_Library_Artists = ''Radiohead'',
            Recommendation_Count = 1, Related_Library_Artists_Total_Play_Count = 9,
            Related_Artist_Genres = ''rock''\<rparr>,
          \<lparr>Missing_Artist = ''Muse'', Related_Library_Artists = ''Radiohead'',
            Recommendation_Count = 1, Related_Library_Artists_Total_Play_Count = 9,
            Related_Artist_Genres = ''rock''\<rparr>,
          \<lparr>Missing_Artist = ''Thom Yorke '', Related_Library_Artists = ''Radiohead'',
            Recommendation_Count = 1, Related_Library_Artists_Total_Play_Count = 9,
            Related_Artist_Genres = ''rock''\<rparr>]"
  by code_simp

text \<open>
  C6 against the code. Line 34 compares the pieces with the empty string and trims
  nothing, and \<open>,\s*\<close> takes the whitespace after a comma only. With the similar
  artists \<open>" ,Thom Yorke ,Muse"\<close> the returned table recommends the artist \<open>" "\<close>,
  which is empty once trimmed, and the artist \<open>"Thom Yorke "\<close> with its trailing
  blank.
\<close>

theorem whitespace_entries_survive:
  "(case snd (get_recommendations digits_to_num whitespace_example) of
      Inl e \<Rightarrow> {}
    | Inr out \<Rightarrow> set (map Missing_Artist out)) = {'' '', ''Muse'', ''Thom Yorke ''} \<and>
   strip '' '' = '''' \<and> strip ''Thom Yorke '' = ''Thom Yorke''"
proof -
  have "strip '' '' = ''''" "strip ''Thom Yorke '' = ''Thom Yorke''"
    by code_simp+
  then show ?thesis
    by (simp add: get_recommendations_snd recommendations_def whitespace_aggregated
        add_score_def set_sort_values_desc)
qed

subsection \<open>Failures\<close>

text \<open>
  C8 against the code. The three required columns are there, and no library artist has
  similar artists, so that the column Similar\_Artists is all NaN with a numeric dtype:
  the \<open>.str\<close> accessor of line 33 raises AttributeError. (An artist name that is a
  number makes line 54 raise TypeError, see \<open>numeric_artist_raises\<close>; a missing required
  column does raise KeyError with its name, see \<open>key_error_iff\<close>.)
\<close>

theorem all_null_similar_artists_raises:
  "snd (get_recommendations digits_to_num no_similar_example) = Inl AttributeError \<and>
   list_all (\<lambda>c. c \<in> set (columns no_similar_example))
     [''Artist'', ''Similar_Artists'', ''Total_Plays'']"
proof -
  have "aggregated digits_to_num (ensure_genres no_similar_example) = Inl AttributeError"
    by code_simp
  moreover have "list_all (\<lambda>c. c \<in> set (columns no_similar_example))
     [''Artist'', ''Similar_Artists'', ''Total_Plays'']"
    by code_simp
  ultimately show ?thesis
    by (simp add: get_recommendations_snd recommendations_def)
qed

lemma numeric_artist_raises:
  "snd (get_recommendations digits_to_num numeric_artist_example) = Inl TypeError"
proof -
  have "aggregated digits_to_num (ensure_genres numeric_artist_example) = Inl TypeError"
    by code_simp
  then show ?thesis
    by (simp add: get_recommendations_snd recommendations_def)
qed

lemma ensure_genres_columns:
  "set (columns (ensure_genres df)) = insert ''Artist_Genres'' (set (columns df))"
  by (auto simp: ensure_genres_def columns_def)

lemma select_required_Inl:
  "select_required df = Inl e \<longleftrightarrow>
     e = KeyError (filter (\<lambda>n. n \<notin> set (columns df)) required) \<and>
     filter (\<lambda>n. n \<notin> set (columns df)) required \<noteq> []"
proof -
  have dom: "map_of df n = None \<longleftrightarrow> n \<notin> set (columns df)" for n
    by (simp add: columns_def map_of_eq_None_iff)
  show ?thesis
    unfolding select_required_def required_def
    by (auto simp: dom [symmetric] split: option.splits)
qed

lemma agg_Inl: "agg d recs ks = Inl e \<Longrightarrow> e = TypeError"
  by (induction ks) (auto simp: join_artists_def split: sum.splits if_splits)

lemma key_error_iff:
  "snd (get_recommendations str_to_num df) = Inl (KeyError missing) \<longleftrightarrow>
     missing = filter (\<lambda>n. n \<notin> set (columns df)) [''Artist'', ''Similar_Artists'', ''Total_Plays'']
     \<and> missing \<noteq> []"
proof -
  have f: "filter (\<lambda>n. n \<notin> set (columns (ensure_genres df))) required
      = filter (\<lambda>n. n \<notin> set (columns df)) [''Artist'', ''Similar_Artists'', ''Total_Plays'']"
    by (simp add: required_def ensure_genres_columns)
  have "recommendations str_to_num (ensure_genres df) = Inl (KeyError missing) \<longleftrightarrow>
      select_required (ensure_genres df) = Inl (KeyError missing)"
    by (auto simp: recommendations_def aggregated_def artist_df_def recs_of_def
        split: sum.splits if_splits dest: agg_Inl)
  then show ?thesis
    unfolding get_recommendations_snd select_required_Inl f by auto
qed



subsection \<open>Contributions to a group\<close>

lemma candidates_Cons: "candidates (a # adf) = candidates [a] @ candidates adf"
  by (simp add: candidates_def explode_def)

lemma group_concat:
  "group_of k (filter P (candidates adf))
     = concat (map (\<lambda>a. group_of k (filter P (candidates [a]))) adf)"
proof (induction adf)
  case Nil
  then show ?case
    by (simp add: candidates_def explode_def group_of_def)
next
  case (Cons a adf)
  have "group_of k (filter P (candidates (a # adf)))
      = group_of k (filter P (candidates [a])) @ group_of k (filter P (candidates adf))"
    by (subst candidates_Cons) (simp add: group_of_def)
  with Cons show ?case
    by simp
qed

lemma explode_row_fields:
  "c \<in> set (explode_row a) \<Longrightarrow> Artist c = Artist a \<and> Total_Plays c = Total_Plays a"
  by (auto simp: explode_row_def split: option.splits list.splits)

lemma candidates_fields:
  "c \<in> set (candidates [a]) \<Longrightarrow> Artist c = Artist a \<and> Total_Plays c = Total_Plays a"
  by (auto simp: candidates_def explode_def with_key_def dest: explode_row_fields)

lemma length_filter_eq_distinct:
  assumes "distinct xs" and "\<forall>x. Q x \<longrightarrow> x = k"
  shows "length (filter Q xs) \<le> 1"
  using assms(1)
proof (induction xs)
  case Nil
  then show ?case by simp
next
  case (Cons x xs)
  show ?case
  proof (cases "Q x")
    case True
    with assms(2) Cons.prems have "k \<notin> set xs"
      by auto
    with assms(2) have "filter Q xs = []"
      by (auto simp: filter_empty_conv)
    with True show ?thesis
      by simp
  next
    case False
    with Cons show ?thesis
      by simp
  qed
qed

lemma one_contribution:
  assumes "\<forall>s. Similar_Artists a = PStr s
             \<longrightarrow> distinct (filter (\<lambda>p. p \<noteq> '''') (re_split_comma s))"
  shows "length (group_of k (filter P (candidates [a]))) \<le> 1"
proof (cases "Similar_Artists a")
  case (PStr s)
  define F where "F = (\<lambda>p. with_key (a\<lparr>Similar_Artists := PStr p\<rparr>))"
  define ps where "ps = re_split_comma s"
  define qs where "qs = filter (\<lambda>p. p \<noteq> '''') ps"
  from assms PStr have d: "distinct qs"
    by (simp add: qs_def ps_def)
  have sim: "Similar_Artists (F p) = PStr p" for p
    by (simp add: F_def with_key_def)
  show ?thesis
  proof (cases ps)
    case Nil
    with PStr show ?thesis
      by (simp add: candidates_def explode_def explode_row_def str_split_def ps_def
          nonempty_entry_def notna_def group_of_def)
  next
    case (Cons q rest)
    with PStr have "candidates [a] = map F qs"
      by (simp add: candidates_def explode_def explode_row_def str_split_def ps_def [symmetric]
          nonempty_entry_def notna_def F_def filter_map comp_def qs_def)
    then have "group_of k (filter P (candidates [a]))
        = map F (filter (\<lambda>p. P (F p) \<and> p = k) qs)"
      by (simp add: group_of_def filter_map comp_def sim conj_commute)
    moreover have "length (filter (\<lambda>p. P (F p) \<and> p = k) qs) \<le> 1"
      using d by (rule length_filter_eq_distinct [where k = k]) simp
    ultimately show ?thesis
      by simp
  qed
qed (simp_all add: candidates_def explode_def explode_row_def str_split_def
    nonempty_entry_def notna_def group_of_def)

lemma contributions:
  assumes "\<forall>a \<in> set adf. length (f a) \<le> 1"
    and "\<forall>a \<in> set adf. \<forall>c \<in> set (f a). g c = h a"
  shows "map g (concat (map f adf)) = map h (filter (\<lambda>a. f a \<noteq> []) adf)"
  using assms
proof (induction adf)
  case Nil
  then show ?case by simp
next
  case (Cons a adf)
  then have "length (f a) \<le> 1" and "\<forall>c \<in> set (f a). g c = h a"
    by simp_all
  then have "map g (f a) = (if f a = [] then [] else [h a])"
    by (cases "f a") auto
  with Cons show ?case
    by simp
qed

lemma distinct_drop_duplicates_Artist: "distinct (map Artist (drop_duplicates_Artist rows))"
proof (induction rows rule: drop_duplicates_Artist.induct)
  case 1
  then show ?case by simp
next
  case (2 r rs)
  have "set (drop_duplicates_Artist (filter (\<lambda>x. Artist x \<noteq> Artist r) rs))
      \<subseteq> set (filter (\<lambda>x. Artist x \<noteq> Artist r) rs)"
    by (rule set_drop_duplicates_Artist)
  with 2 show ?case
    by auto
qed

lemma distinct_artist_df:
  assumes "artist_df str_to_num df = Inr adf"
  shows "distinct (map Artist adf)" and "\<forall>a \<in> set adf. notna (Artist a)"
proof -
  from assms obtain rows where
    adf: "adf = filter (\<lambda>r. notna (Artist r))
                  (map (clean_row str_to_num) (drop_duplicates_Artist rows))"
    by (auto simp: artist_df_def split: sum.splits)
  have "map Artist (map (clean_row str_to_num) (drop_duplicates_Artist rows))
      = map Artist (drop_duplicates_Artist rows)"
    by (simp add: clean_row_def)
  then have "distinct (map Artist (map (clean_row str_to_num) (drop_duplicates_Artist rows)))"
    by (simp only: distinct_drop_duplicates_Artist)
  then show "distinct (map Artist adf)"
    unfolding adf by (rule distinct_map_filter)
  show "\<forall>a \<in> set adf. notna (Artist a)"
    by (simp add: adf)
qed


lemma candidates_concat: "candidates adf = concat (map (\<lambda>a. candidates [a]) adf)"
proof (induction adf)
  case Nil
  then show ?case
    by (simp add: candidates_def explode_def)
next
  case (Cons a adf)
  then show ?case
    by (subst candidates_Cons) simp
qed

lemma candidates_source:
  assumes "c \<in> set (candidates adf)"
  obtains a where "a \<in> set adf" "Artist c = Artist a" "Total_Plays c = Total_Plays a"
proof -
  from assms obtain a where "a \<in> set adf" "c \<in> set (candidates [a])"
    by (subst (asm) candidates_concat) auto
  then show ?thesis
    using candidates_fields that by blast
qed

lemma group_by_artist:
  assumes d: "distinct (map Artist adf)"
    and e: "\<forall>a \<in> set adf. \<forall>s. Similar_Artists a = PStr s
              \<longrightarrow> distinct (filter (\<lambda>p. p \<noteq> '''') (re_split_comma s))"
    and g: "grp = group_of k (filter P (candidates adf))"
  shows "distinct (map Artist grp)"
    and "map Total_Plays grp
           = map Total_Plays (filter (\<lambda>a. Artist a \<in> Artist ` set grp) adf)"
proof -
  define f where "f = (\<lambda>a. group_of k (filter P (candidates [a])))"
  have grp: "grp = concat (map f adf)"
    unfolding g f_def by (rule group_concat)
  have sub: "Artist c = Artist a \<and> Total_Plays c = Total_Plays a" if "c \<in> set (f a)" for c a
    using that candidates_fields [of c a] by (simp add: f_def group_of_def)
  have one: "\<forall>a \<in> set adf. length (f a) \<le> 1"
    using e one_contribution [of _ k P] by (simp add: f_def)
  have "\<forall>a \<in> set adf. \<forall>c \<in> set (f a). Artist c = Artist a"
    using sub by blast
  with one have artists: "map Artist grp = map Artist (filter (\<lambda>a. f a \<noteq> []) adf)"
    unfolding grp by (rule contributions)
  have "\<forall>a \<in> set adf. \<forall>c \<in> set (f a). Total_Plays c = Total_Plays a"
    using sub by blast
  with one have plays: "map Total_Plays grp = map Total_Plays (filter (\<lambda>a. f a \<noteq> []) adf)"
    unfolding grp by (rule contributions)
  from d show "distinct (map Artist grp)"
    unfolding artists by (rule distinct_map_filter)
  have "f a \<noteq> [] \<longleftrightarrow> Artist a \<in> Artist ` set grp" if a: "a \<in> set adf" for a
  proof
    assume "f a \<noteq> []"
    then obtain c where c: "c \<in> set (f a)"
      by (cases "f a") auto
    with a have "c \<in> set grp"
      by (auto simp: grp)
    moreover from c have "Artist c = Artist a"
      by (simp add: sub)
    ultimately show "Artist a \<in> Artist ` set grp"
      by force
  next
    assume "Artist a \<in> Artist ` set grp"
    then obtain c a' where c: "a' \<in> set adf" "c \<in> set (f a')" "Artist a = Artist c"
      by (auto simp: grp)
    then have "Artist a = Artist a'"
      by (simp add: sub)
    with d a c(1) have "a = a'"
      by (auto simp: distinct_map dest: inj_onD)
    with c(2) show "f a \<noteq> []"
      by auto
  qed
  then have "filter (\<lambda>a. f a \<noteq> []) adf = filter (\<lambda>a. Artist a \<in> Artist ` set grp) adf"
    by (intro filter_cong refl) blast
  with plays show "map Total_Plays grp
      = map Total_Plays (filter (\<lambda>a. Artist a \<in> Artist ` set grp) adf)"
    by simp
qed

text \<open>
  C7, amended. The total play count of an output group is the sum, taken in the dtype of
  the play counts, of total\_plays over the candidate rows of the group, and its count
  is their number; the sum is the exact one whenever that is a value of the dtype (it
  does not overflow the 64-bit integers of an integer column). The entries of a library
  artist need not be distinct. Where the entries that line 34 keeps are pairwise
  distinct for every retained library artist, no library artist contributes more than
  one row to the group, and the total is the same sum over the distinct library artists
  that contribute.
\<close>

theorem total_plays_over_contributions:
  assumes "artist_df str_to_num (ensure_genres df) = Inr adf"
    and "recs_of (similar_is_object (ensure_genres df)) adf = Inr recs"
    and "snd (get_recommendations str_to_num df) = Inr out"
    and "r \<in> set out"
  shows "Related_Library_Artists_Total_Play_Count r
           = np_sum (plays_dtype str_to_num (ensure_genres df))
               (map Total_Plays (group_of (Missing_Artist r) recs)) \<and>
         (fits (plays_dtype str_to_num (ensure_genres df))
            (sum_list (map Total_Plays (group_of (Missing_Artist r) recs))) \<longrightarrow>
            Related_Library_Artists_Total_Play_Count r
              = sum_list (map Total_Plays (group_of (Missing_Artist r) recs))) \<and>
         Recommendation_Count r = length (group_of (Missing_Artist r) recs) \<and>
         ((\<forall>a \<in> set adf. \<forall>s. Similar_Artists a = PStr s
              \<longrightarrow> distinct (filter (\<lambda>p. p \<noteq> '''') (re_split_comma s))) \<longrightarrow>
            distinct (map Artist (group_of (Missing_Artist r) recs)) \<and>
            Related_Library_Artists_Total_Play_Count r
              = np_sum (plays_dtype str_to_num (ensure_genres df))
                  (map Total_Plays
                     (filter (\<lambda>a. Artist a \<in> Artist ` set (group_of (Missing_Artist r) recs))
                        adf)) \<and>
            (fits (plays_dtype str_to_num (ensure_genres df))
               (sum_list (map Total_Plays (group_of (Missing_Artist r) recs))) \<longrightarrow>
               Related_Library_Artists_Total_Play_Count r
                 = sum_list (map Total_Plays
                     (filter (\<lambda>a. Artist a \<in> Artist ` set (group_of (Missing_Artist r) recs))
                        adf))))"
proof -
  define d where "d = plays_dtype str_to_num (ensure_genres df)"
  from assms(3,4) obtain adf' recs' rows row where
    a: "artist_df str_to_num (ensure_genres df) = Inr adf'"
    and b: "recs_of (similar_is_object (ensure_genres df)) adf' = Inr recs'"
    and c: "agg d recs' (group_keys recs') = Inr rows"
    and row: "row \<in> set rows" "r = add_score d row"
    unfolding d_def by (rule output_row)
  from a b assms(1,2) have eq: "adf' = adf" "recs' = recs"
    by simp_all
  define k where "k = Missing_Artist r"
  define P where "P = (\<lambda>c :: real rec_row. suggested_key c \<notin> library_clean adf)"
  define grp where "grp = group_of k recs"
  define total where "total = Related_Library_Artists_Total_Play_Count r"
  from assms(2) have recs: "recs = filter P (candidates adf)"
    by (auto simp: recs_of_def P_def split: if_splits)
  from agg_rows [OF c row(1)] row(2) eq
  have total: "total = np_sum d (map Total_Plays grp)"
    and count: "Recommendation_Count r = length (filter notna (map Artist grp))"
    by (simp_all add: add_score_fields k_def grp_def total_def)
  have exact: "total = sum_list (map Total_Plays grp)"
    if "fits d (sum_list (map Total_Plays grp))"
    using that total by (simp add: np_sum_def np_wrap_fits)
  have "notna (Artist c)" if "c \<in> set grp" for c
  proof -
    from that have "c \<in> set (candidates adf)"
      by (simp add: recs group_of_def grp_def)
    then obtain a where "a \<in> set adf" "Artist c = Artist a"
      by (rule candidates_source)
    with distinct_artist_df(2) [OF assms(1)] show ?thesis
      by simp
  qed
  then have "filter notna (map Artist grp) = map Artist grp"
    by (simp add: filter_id_conv)
  with count have count': "Recommendation_Count r = length grp"
    by simp
  have by_artist: "distinct (map Artist grp) \<and>
        total = np_sum d (map Total_Plays (filter (\<lambda>a. Artist a \<in> Artist ` set grp) adf)) \<and>
        (fits d (sum_list (map Total_Plays grp)) \<longrightarrow>
           total = sum_list (map Total_Plays
                     (filter (\<lambda>a. Artist a \<in> Artist ` set grp) adf)))"
    if h: "\<forall>a \<in> set adf. \<forall>s. Similar_Artists a = PStr s
             \<longrightarrow> distinct (filter (\<lambda>p. p \<noteq> '''') (re_split_comma s))"
  proof -
    have g: "grp = group_of k (filter P (candidates adf))"
      by (simp add: grp_def recs)
    note ga = group_by_artist [OF distinct_artist_df(1) [OF assms(1)] h g]
    from ga(2) total exact show ?thesis
      using ga(1) by simp
  qed
  from total exact count' by_artist show ?thesis
    unfolding k_def grp_def total_def d_def by blast
qed

lemma example_recs_of:
  "recs_of (similar_is_object (ensure_genres library_example)) example_artists
     = Inr example_recs"
  by code_simp

lemma repeated_aggregated:
  "aggregated digits_to_num (ensure_genres repeated_entry_example) =
     Inr [\<lparr>Missing_Artist = ''Muse'', Related_Library_Artists = ''Radiohead'',
            Recommendation_Count = 2, Related_Library_Artists_Total_Play_Count = 18,
            Related_Artist_Genres = ''rock''\<rparr>]"
  by code_simp

lemma repeated_dtype:
  "plays_dtype digits_to_num (ensure_genres repeated_entry_example) = Int64"
  by code_simp

text \<open>
  C7 fails as stated. The similar artists \<open>"Muse, Muse"\<close> of one library artist split
  into two equal entries; the one artist contributes two rows to the group of Muse,
  which has the count 2 and the total 18, twice the 9 plays of its only contributor.
\<close>

theorem repeated_entry_counterexample:
  "snd (get_recommendations digits_to_num repeated_entry_example) =
     Inr [\<lparr>Missing_Artist = ''Muse'', Related_Library_Artists = ''Radiohead'',
            Recommendation_Count = 2, Related_Library_Artists_Total_Play_Count = 18,
            Related_Artist_Genres = ''rock'', Priority_Score = Fin (2 * log 10 19)\<rparr>] \<and>
   re_split_comma ''Muse, Muse'' = [''Muse'', ''Muse''] \<and>
   artist_df digits_to_num (ensure_genres repeated_entry_example) =
     Inr [\<lparr>Artist = PStr ''Radiohead'', Similar_Artists = PStr ''Muse, Muse'',
            Total_Plays = 9, Artist_Genres = PStr ''rock''\<rparr>]"
proof -
  have "re_split_comma ''Muse, Muse'' = [''Muse'', ''Muse'']"
    by code_simp
  moreover have "artist_df digits_to_num (ensure_genres repeated_entry_example) =
     Inr [\<lparr>Artist = PStr ''Radiohead'', Similar_Artists = PStr ''Muse, Muse'',
            Total_Plays = 9, Artist_Genres = PStr ''rock''\<rparr>]"
    by code_simp
  ultimately show ?thesis
    by (simp add: get_recommendations_snd recommendations_def repeated_aggregated
        repeated_dtype add_score_def np_add1_def np_wrap_def wrap_int64_def int64_min_def
        uint64_max_def np_log10_def np_times_def sort_values_desc_def)
qed

theorem total_plays_over_contributions_witness:
  "artist_df digits_to_num (ensure_genres library_example) = Inr example_artists \<and>
   recs_of (similar_is_object (ensure_genres library_example)) example_artists
     = Inr example_recs \<and>
   snd (get_recommendations digits_to_num library_example)
     = Inr [tricky, muse, thom_yorke, goldfrapp] \<and>
   tricky \<in> set [tricky, muse, thom_yorke, goldfrapp] \<and>
   list_all
     (\<lambda>a. case Similar_Artists a of
            PStr s \<Rightarrow> distinct (filter (\<lambda>p. p \<noteq> '''') (re_split_comma s))
          | _ \<Rightarrow> True)
     example_artists \<and>
   fits (plays_dtype digits_to_num (ensure_genres library_example))
     (sum_list (map Total_Plays (group_of ''Tricky'' example_recs))) \<and>
   Related_Library_Artists_Total_Play_Count tricky
     = sum_list (map Total_Plays (group_of ''Tricky'' example_recs)) \<and>
   Recommendation_Count tricky = length (group_of ''Tricky'' example_recs) \<and>
   distinct (map Artist (group_of ''Tricky'' example_recs)) \<and>
   Related_Library_Artists_Total_Play_Count tricky
     = sum_list (map Total_Plays
         (filter (\<lambda>a. Artist a \<in> Artist ` set (group_of ''Tricky'' example_recs))
            example_artists))"
proof -
  have h1: "artist_df digits_to_num (ensure_genres library_example) = Inr example_artists"
    by (simp add: example_ensure example_artist_df)
  have h4: "tricky \<in> set [tricky, muse, thom_yorke, goldfrapp]"
    by simp
  have d: "list_all
      (\<lambda>a. case Similar_Artists a of
             PStr s \<Rightarrow> distinct (filter (\<lambda>p. p \<noteq> '''') (re_split_comma s))
           | _ \<Rightarrow> True)
      example_artists"
    by code_simp
  then have h5: "\<forall>a \<in> set example_artists. \<forall>s.
      Similar_Artists a = PStr s
        \<longrightarrow> distinct (filter (\<lambda>p. p \<noteq> '''') (re_split_comma s))"
    by (auto simp: list_all_iff split: pyval.splits)
  have f: "fits (plays_dtype digits_to_num (ensure_genres library_example))
     (sum_list (map Total_Plays (group_of ''Tricky'' example_recs)))"
    by (simp add: example_ensure example_dtype fits_def)
  have k: "Missing_Artist tricky = ''Tricky''"
    by (simp add: tricky_def)
  from total_plays_over_contributions [OF h1 example_recs_of example_output h4] h5 f
    h1 example_recs_of example_output h4 d
  show ?thesis
    unfolding k by blast
qed

text \<open>
  The wrap-around of the sum: two library artists with \<open>4611686018427387904\<close> plays
  each name the same artist, and the total of the group is \<open>-9223372036854775808\<close>.
\<close>

lemma wrapping_digits:
  "digits_to_num ''4611686018427387904'' = Some (PyInt 4611686018427387904)"
  by code_simp

lemma wrapping_aggregated:
  "aggregated digits_to_num (ensure_genres wrapping_sum_example) =
     Inr [\<lparr>Missing_Artist = ''tricky'', Related_Library_Artists = ''radiohead, portishead'',
            Recommendation_Count = 2,
            Related_Library_Artists_Total_Play_Count = - 9223372036854775808,
            Related_Artist_Genres = ''rock, trip hop''\<rparr>]"
  by (simp add: eval_defs wrapping_sum_example_def wrapping_digits)

subsection \<open>When the call returns a table\<close>

text \<open>
  What does hold of the failures: with the required columns there, a column of similar
  artists that the \<open>.str\<close> accessor takes, and artist names that are \<open>str\<close>, the call
  returns a table; it is the empty table when no candidate is left. Every candidate
  that line 34 lets through is a \<open>str\<close> other than the empty one.
\<close>

lemma agg_Inr:
  assumes "\<forall>c \<in> set recs. is_str (Artist c)"
  shows "\<exists>rows. agg d recs ks = Inr rows"
proof (induction ks)
  case Nil
  then show ?case by simp
next
  case (Cons k ks)
  from assms have "list_all is_str (unique (map Artist (group_of k recs)))"
    by (auto simp: list_all_iff set_unique group_of_def)
  with Cons show ?case
    by (auto simp: join_artists_def)
qed

lemma returns_table:
  assumes "artist_df str_to_num (ensure_genres df) = Inr adf"
    and "str_accessor_ok (similar_is_object (ensure_genres df)) (map Similar_Artists adf)"
    and "\<forall>a \<in> set adf. is_str (Artist a)"
  shows "\<exists>out. snd (get_recommendations str_to_num df) = Inr out"
proof -
  define recs where
    "recs = filter (\<lambda>r. suggested_key r \<notin> library_clean adf) (candidates adf)"
  from assms(2) have r: "recs_of (similar_is_object (ensure_genres df)) adf = Inr recs"
    by (simp add: recs_of_def recs_def)
  have "is_str (Artist c)" if "c \<in> set recs" for c
  proof -
    from that have "c \<in> set (candidates adf)"
      by (simp add: recs_def)
    then obtain a where "a \<in> set adf" "Artist c = Artist a"
      by (rule candidates_source)
    with assms(3) show ?thesis
      by simp
  qed
  then obtain rows where
    "agg (plays_dtype str_to_num (ensure_genres df)) recs (group_keys recs) = Inr rows"
    using agg_Inr [of recs _ "group_keys recs"] by blast
  with assms(1) r show ?thesis
    by (simp add: get_recommendations_snd recommendations_def aggregated_def)
qed

lemma no_candidates_empty_table:
  assumes "artist_df str_to_num (ensure_genres df) = Inr adf"
    and "recs_of (similar_is_object (ensure_genres df)) adf = Inr []"
  shows "snd (get_recommendations str_to_num df) = Inr []"
  using assms
  by (simp add: get_recommendations_snd recommendations_def aggregated_def group_keys_def
      sort_values_desc_def)

lemma explode_row_entry:
  assumes "r \<in> set (explode_row a)"
  shows "Similar_Artists r = PNone \<or> (\<exists>s. Similar_Artists r = PStr s)"
proof (cases "str_split (Similar_Artists a)")
  case None
  with assms show ?thesis
    by (simp add: explode_row_def)
next
  case (Some ps)
  with assms show ?thesis
    by (cases ps) (auto simp: explode_row_def)
qed

lemma candidates_nonempty:
  assumes "c \<in> set (candidates adf)"
  shows "\<exists>s. Similar_Artists c = PStr s \<and> s \<noteq> ''''"
proof -
  from assms obtain a r where "a \<in> set adf" "r \<in> set (explode_row a)"
      "nonempty_entry r" "c = with_key r"
    by (auto simp: candidates_def explode_def)
  with explode_row_entry [of r a] show ?thesis
    by (auto simp: nonempty_entry_def notna_def with_key_def)
qed



end
